theory Spec2Isabelle
  imports Complex_Main
begin

section \<open>Python values shared by both scripts\<close>

text \<open>
  Python floats are modelled as \<^typ>\<open>real\<close>. The figures of the overhead comparison are
  computed from the means by a subtraction, a division and a multiplication whose
  rounding shows in the result: these operations, and the formatting of a percentage to
  one decimal, are modelled with the rounding of IEEE 754 double precision. Every other
  float operation is taken at its exact mathematical value. Python strings are modelled
  as \<^typ>\<open>string\<close> (ASCII text).
\<close>

text \<open>The exceptions that the standard library raises inside the analysis code.\<close>

datatype py_error = StatisticsError | ValueError | IndexError | ZeroDivisionError

text \<open>Sequencing of fallible computations: the first exception raised escapes.\<close>

definition bind_err :: "'e + 'a \<Rightarrow> ('a \<Rightarrow> 'e + 'b) \<Rightarrow> 'e + 'b" where
  "bind_err m f = (case m of Inl e \<Rightarrow> Inl e | Inr x \<Rightarrow> f x)"

text \<open>
  Truthiness of an \<open>Optional[str]\<close>: \<open>None\<close> and the empty string are both false, so
  \<open>not r.error\<close> is \<open>\<not> truthy (error r)\<close>.
\<close>

definition truthy :: "string option \<Rightarrow> bool" where
  "truthy e = (case e of None \<Rightarrow> False | Some s \<Rightarrow> s \<noteq> [])"

subsection \<open>Double precision\<close>

text \<open>Rounding to the nearest integer, a tie going to the even one.\<close>

definition round_half_even :: "real \<Rightarrow> int" where
  "round_half_even y =
     (let f = \<lfloor>y\<rfloor>; d = y - of_int f
      in if d < 1 / 2 then f else if 1 / 2 < d then f + 1 else if even f then f else f + 1)"

text \<open>
  The binary exponent \<open>e\<close> of a positive number \<open>x\<close>, with \<open>2 ^ e \<le> x < 2 ^ (e + 1)\<close>,
  found by halving or doubling \<open>x\<close>; the first argument bounds the number of steps, and
  2200 steps cover every double.
\<close>

fun binary_exponent :: "nat \<Rightarrow> real \<Rightarrow> int" where
  "binary_exponent 0 x = 0"
| "binary_exponent (Suc k) x =
     (if 2 \<le> x then binary_exponent k (x / 2) + 1
      else if x < 1 then binary_exponent k (x * 2) - 1
      else 0)"

definition pow2 :: "int \<Rightarrow> real" where
  "pow2 k = (if 0 \<le> k then 2 ^ nat k else 1 / 2 ^ nat (- k))"

text \<open>
  The double nearest to a real number (round to nearest, ties to even): 53 significant
  bits, and the fixed spacing of the subnormal numbers below \<open>2 ^ -1022\<close>. Overflow to
  infinity, above \<open>2 ^ 1024\<close>, is left out.
\<close>

definition to_double :: "real \<Rightarrow> real" where
  "to_double x =
     (if x = 0 then 0
      else let e = max (binary_exponent 2200 \<bar>x\<bar>) (- 1022);
               ulp = pow2 (e - 52)
           in sgn x * of_int (round_half_even (\<bar>x\<bar> / ulp)) * ulp)"

text \<open>
  The float operations \<open>a - b\<close> and \<open>a * b\<close>: the exact result, rounded. The division
  \<open>a / b\<close> raises \<open>ZeroDivisionError\<close> when \<open>b\<close> is zero.
\<close>

definition float_sub :: "real \<Rightarrow> real \<Rightarrow> real" where
  "float_sub a b = to_double (a - b)"

definition float_mul :: "real \<Rightarrow> real \<Rightarrow> real" where
  "float_mul a b = to_double (a * b)"

definition py_div :: "real \<Rightarrow> real \<Rightarrow> py_error + real" where
  "py_div a b = (if b = 0 then Inl ZeroDivisionError else Inr (to_double (a / b)))"





text \<open>\<open>int(x)\<close> on a float truncates towards zero.\<close>

definition py_int :: "real \<Rightarrow> int" where
  "py_int x = (if 0 \<le> x then \<lfloor>x\<rfloor> else \<lceil>x\<rceil>)"

text \<open>
  Subscription \<open>xs[i]\<close> of a list: positions are numbered from 0, or from \<open>-1\<close>
  backwards starting at the last element; any other position raises \<open>IndexError\<close>.
\<close>

definition py_index :: "'a list \<Rightarrow> int \<Rightarrow> py_error + 'a" where
  "py_index xs i =
     (if 0 \<le> i \<and> i < int (length xs) then Inr (xs ! nat i)
      else if i < 0 \<and> - int (length xs) \<le> i then Inr (xs ! nat (int (length xs) + i))
      else Inl IndexError)"

text \<open>\<open>max(xs)\<close> and \<open>min(xs)\<close> raise \<open>ValueError\<close> on an empty sequence.\<close>

fun py_max :: "real list \<Rightarrow> py_error + real" where
  "py_max [] = Inl ValueError"
| "py_max (x # xs) = Inr (fold max xs x)"

fun py_min :: "real list \<Rightarrow> py_error + real" where
  "py_min [] = Inl ValueError"
| "py_min (x # xs) = Inr (fold min xs x)"

text \<open>
  The \<open>statistics\<close> module: \<open>mean\<close> and \<open>median\<close> raise \<open>StatisticsError\<close> on no
  data, \<open>stdev\<close> (the square root of the sample variance) on fewer than two points.
\<close>

definition mean :: "real list \<Rightarrow> py_error + real" where
  "mean xs = (if xs = [] then Inl StatisticsError else Inr (sum_list xs / real (length xs)))"

definition median :: "real list \<Rightarrow> py_error + real" where
  "median xs =
     (let s = sort xs; n = length s
      in if n = 0 then Inl StatisticsError
         else if n mod 2 = 1 then Inr (s ! (n div 2))
         else Inr ((s ! (n div 2 - 1) + s ! (n div 2)) / 2))"

definition stdev :: "real list \<Rightarrow> py_error + real" where
  "stdev xs =
     (if length xs < 2 then Inl StatisticsError
      else let m = sum_list xs / real (length xs)
           in Inr (sqrt (sum_list (map (\<lambda>x. (x - m)\<^sup>2) xs) / real (length xs - 1))))"

subsection \<open>Strings\<close>

text \<open>The display label of a prompt: \<open>prompt[:50] + "..." if len(prompt) > 50 else prompt\<close>.\<close>

definition prompt_label :: "string \<Rightarrow> string" where
  "prompt_label p = (if 50 < length p then take 50 p @ ''...'' else p)"

definition in_range :: "char \<Rightarrow> char \<Rightarrow> char \<Rightarrow> bool" where
  "in_range lo hi c = ((of_char lo :: nat) \<le> of_char c \<and> (of_char c :: nat) \<le> of_char hi)"

text \<open>\<open>str.lower()\<close> on ASCII text.\<close>

definition lower_char :: "char \<Rightarrow> char" where
  "lower_char c = (if in_range (CHR ''A'') (CHR ''Z'') c then char_of (of_char c + (32 :: nat)) else c)"

definition lower :: "string \<Rightarrow> string" where
  "lower s = map lower_char s"

text \<open>\<open>sub in s\<close> on strings: \<open>sub\<close> occurs in \<open>s\<close> as a contiguous substring.\<close>

fun starts_with :: "string \<Rightarrow> string \<Rightarrow> bool" where
  "starts_with [] s = True"
| "starts_with (c # cs) [] = False"
| "starts_with (c # cs) (x # xs) = (c = x \<and> starts_with cs xs)"

fun str_contains :: "string \<Rightarrow> string \<Rightarrow> bool" where
  "str_contains sub [] = (sub = [])"
| "str_contains sub (x # xs) = (starts_with sub (x # xs) \<or> str_contains sub xs)"

subsection \<open>The clock and the remote endpoint\<close>

text \<open>
  The state of the world that the scripts observe: the reading of \<open>time.perf_counter()\<close>
  in seconds, and the number of remote calls issued so far. Only the remote call, the
  reading of the response body and the regular-expression passes let time elapse.
\<close>

record world =
  clock :: real
  calls :: nat

definition perf_counter :: "world \<Rightarrow> real" where
  "perf_counter w = clock w"

definition elapse :: "real \<Rightarrow> world \<Rightarrow> world" where
  "elapse d w = w\<lparr>clock := clock w + d\<rparr>"

text \<open>
  An exception caught by \<open>except Exception\<close>: whether it is an instance of
  \<open>client.exceptions.ValidationException\<close>, and its text \<open>str(e)\<close>.
\<close>

record exn =
  is_validation :: bool
  exn_text :: string

text \<open>
  The request handed to \<open>client.invoke_model\<close>. The body is kept as the dictionary that
  \<open>json.dumps\<close> serialises.
\<close>

record request_body =
  user_text :: string
  maxTokens :: nat
  temperature :: real
  topP :: "real option"

record api_params =
  modelId :: string
  body :: request_body
  contentType :: string
  accept :: string
  guardrailIdentifier :: "string option"
  guardrailVersion :: "string option"

text \<open>
  The parsed response body, with the fields the scripts look at. A field that is absent
  is \<open>None\<close>; a field that is present has the type the endpoint documents.
\<close>

record usage_section =
  inputTokens :: "int option"
  outputTokens :: "int option"

record content_block =
  block_text :: "string option"

record message_section =
  content_field :: "content_block list option"

record output_section =
  message_field :: "message_section option"

record response_body =
  output_field :: "output_section option"
  stopReason :: "string option"
  usage :: "usage_section option"

text \<open>
  What the endpoint does with one request: the call takes \<open>call_secs\<close> and either raises
  or returns a response; \<open>json.loads(response["body"].read())\<close> then takes \<open>read_secs\<close>
  and either raises or yields the parsed body. The client may answer each call
  differently, depending on the state of the world and on the request.
\<close>

record http_response =
  read_secs :: real
  read_result :: "exn + response_body"

record call_outcome =
  call_secs :: real
  call_result :: "exn + http_response"

type_synonym client = "world \<Rightarrow> api_params \<Rightarrow> call_outcome"

definition after_call :: "real \<Rightarrow> world \<Rightarrow> world" where
  "after_call d w = w\<lparr>clock := clock w + d, calls := calls w + 1\<rparr>"

subsection \<open>JSON documents\<close>

text \<open>
  The value handed to \<open>json.dump\<close>. Writing the document to the file and reading it back
  with \<open>json.load\<close> is taken to return the same value.
\<close>

datatype json =
    JNull
  | JBool bool
  | JInt int
  | JFloat real
  | JStr string
  | JArr "json list"
  | JObj "(string \<times> json) list"

definition json_opt_int :: "int option \<Rightarrow> json" where
  "json_opt_int v = (case v of None \<Rightarrow> JNull | Some n \<Rightarrow> JInt n)"

definition json_opt_str :: "string option \<Rightarrow> json" where
  "json_opt_str v = (case v of None \<Rightarrow> JNull | Some t \<Rightarrow> JStr t)"

section \<open>benchmark.py\<close>

subsection \<open>The result of one call\<close>

record BenchmarkResult =
  prompt :: string
  with_guardrail :: bool
  latency_ms :: real
  input_tokens :: "int option"
  output_tokens :: "int option"
  blocked :: bool
  error :: "string option"

text \<open>
  The dictionary returned by \<open>run_benchmark\<close>: its two keys are fixed, so it is a record
  of the two result lists.
\<close>

record benchmark_results =
  results_without_guardrail :: "BenchmarkResult list"
  results_with_guardrail :: "BenchmarkResult list"

subsection \<open>Configuration\<close>

definition REGION :: string where "REGION = ''us-east-1''"
definition MODEL_ID :: string where "MODEL_ID = ''amazon.nova-pro-v1:0''"
definition GUARDRAIL_ID :: string where "GUARDRAIL_ID = ''wys9zt8hy6n4''"
definition GUARDRAIL_VERSION :: string where "GUARDRAIL_VERSION = ''1''"

subsection \<open>invoke_model\<close>

text \<open>
  The request: the body for Nova Pro, and the guardrail identifiers when the guardrail
  is enabled.
\<close>

definition model_request :: "string \<Rightarrow> bool \<Rightarrow> api_params" where
  "model_request p use_guardrail =
     (let request_body = \<lparr>user_text = p, maxTokens = 512, temperature = 7 / 10, topP = Some (9 / 10)\<rparr>
      in \<lparr>modelId = MODEL_ID, body = request_body,
          contentType = ''application/json'', accept = ''application/json'',
          guardrailIdentifier = (if use_guardrail then Some GUARDRAIL_ID else None),
          guardrailVersion = (if use_guardrail then Some GUARDRAIL_VERSION else None)\<rparr>)"

text \<open>
  One call, with or without the guardrail. The first clock reading is taken right before
  the call, the second right after it returns and before the body is read. An exception
  raised by the call or by reading the body is caught; the handler reads the clock again.
\<close>

definition invoke_model :: "client \<Rightarrow> string \<Rightarrow> bool \<Rightarrow> world \<Rightarrow> BenchmarkResult \<times> world" where
  "invoke_model client p use_guardrail w0 =
     (let api_params = model_request p use_guardrail;
          start_time = perf_counter w0;
          out = client w0 api_params;
          w1 = after_call (call_secs out) w0;
          except = (\<lambda>e w.
             let end_time = perf_counter w;
                 latency = (end_time - start_time) * 1000;
                 err = exn_text e
             in \<lparr>prompt = prompt_label p, with_guardrail = use_guardrail, latency_ms = latency,
                 input_tokens = None, output_tokens = None,
                 blocked = (if is_validation e then str_contains ''guardrail'' (lower err) else False),
                 error = Some err\<rparr>)
      in case call_result out of
           Inl e \<Rightarrow> (except e w1, w1)
         | Inr response \<Rightarrow>
             (let end_time = perf_counter w1;
                  latency = (end_time - start_time) * 1000;
                  w2 = elapse (read_secs response) w1
              in case read_result response of
                   Inl e \<Rightarrow> (except e w2, w2)
                 | Inr response_body \<Rightarrow>
                     (let in_tok = (case usage response_body of None \<Rightarrow> None | Some u \<Rightarrow> inputTokens u);
                          out_tok = (case usage response_body of None \<Rightarrow> None | Some u \<Rightarrow> outputTokens u);
                          stop_reason = (case stopReason response_body of None \<Rightarrow> [] | Some r \<Rightarrow> r);
                          is_blocked = (use_guardrail \<and> stop_reason = ''guardrail_intervened'')
                      in (\<lparr>prompt = prompt_label p, with_guardrail = use_guardrail,
                           latency_ms = latency, input_tokens = in_tok, output_tokens = out_tok,
                           blocked = is_blocked, error = None\<rparr>, w2))))"

subsection \<open>run_benchmark\<close>

text \<open>The body of the inner loop: one call without the guardrail, then one with it.\<close>

definition run_iteration ::
  "client \<Rightarrow> string \<Rightarrow> benchmark_results \<times> world \<Rightarrow> benchmark_results \<times> world" where
  "run_iteration client p st =
     (let (results, w) = st;
          (result, w') = invoke_model client p False w;
          results' = results\<lparr>results_without_guardrail := results_without_guardrail results @ [result]\<rparr>;
          (result2, w'') = invoke_model client p True w'
      in (results'\<lparr>results_with_guardrail := results_with_guardrail results' @ [result2]\<rparr>, w''))"

text \<open>
  Two warm-up calls whose results are dropped, then for every prompt
  \<open>for i in range(iterations)\<close> the loop body. Progress printing is left out.
\<close>

definition run_benchmark ::
  "client \<Rightarrow> string list \<Rightarrow> int \<Rightarrow> world \<Rightarrow> benchmark_results \<times> world" where
  "run_benchmark client prompts iterations w0 =
     (let (warm1, w1) = invoke_model client ''Hello'' False w0;
          (warm2, w2) = invoke_model client ''Hello'' True w1
      in fold (\<lambda>p. fold (\<lambda>i. run_iteration client p) [0..<nat iterations]) prompts
           (\<lparr>results_without_guardrail = [], results_with_guardrail = []\<rparr>, w2))"

subsection \<open>analyze_results\<close>

text \<open>
  The 95th percentile as \<open>analyze_results\<close> computes it:
  \<open>sorted(l)[int(len(l) * 0.95)] if len(l) >= 20 else max(l)\<close>. The product
  \<open>len(l) * 0.95\<close> is taken at its exact value \<open>19 * len(l) / 20\<close>.
\<close>

definition p95 :: "real list \<Rightarrow> py_error + real" where
  "p95 l = (if 20 \<le> length l then py_index (sort l) (py_int (real (length l) * (95 / 100)))
            else py_max l)"

text \<open>The figures printed for one variant under \<open>if latencies:\<close>.\<close>

record latency_stats =
  mean_latency :: real
  median_latency :: real
  std_deviation :: "real option"
  min_latency :: real
  max_latency :: real
  p95_latency :: real

definition latency_summary :: "real list \<Rightarrow> py_error + latency_stats" where
  "latency_summary l =
     bind_err (mean l) (\<lambda>m.
     bind_err (median l) (\<lambda>md.
     bind_err (if 1 < length l then bind_err (stdev l) (\<lambda>s. Inr (Some s)) else Inr None) (\<lambda>sd.
     bind_err (py_min l) (\<lambda>mn.
     bind_err (py_max l) (\<lambda>mx.
     bind_err (p95 l) (\<lambda>p.
       Inr \<lparr>mean_latency = m, median_latency = md, std_deviation = sd,
            min_latency = mn, max_latency = mx, p95_latency = p\<rparr>))))))"

text \<open>The block that is printed only when the list of latencies is not empty.\<close>

definition stats_block :: "real list \<Rightarrow> py_error + latency_stats option" where
  "stats_block l = (if l \<noteq> [] then bind_err (latency_summary l) (\<lambda>s. Inr (Some s)) else Inr None)"

text \<open>
  The overhead analysis, printed when both variants have a successful sample:
  \<open>overhead = mean_with - mean_without\<close>, \<open>overhead_pct = (overhead / mean_without) * 100\<close>
  and \<open>100 * blocked_count / len(with_gr)\<close>.
\<close>

record overhead_analysis =
  overhead_ms :: real
  overhead_pct :: real
  blocked_pct :: real

definition overhead_block ::
  "real list \<Rightarrow> real list \<Rightarrow> nat \<Rightarrow> nat \<Rightarrow> py_error + overhead_analysis option" where
  "overhead_block latencies_without latencies_with blocked_count n_with =
     (if latencies_without \<noteq> [] \<and> latencies_with \<noteq> [] then
        bind_err (mean latencies_without) (\<lambda>mean_without.
        bind_err (mean latencies_with) (\<lambda>mean_with.
        let overhead = float_sub mean_with mean_without in
        bind_err (py_div overhead mean_without) (\<lambda>q.
        let pct = float_mul q 100 in
        bind_err (py_div (100 * real blocked_count) (real n_with)) (\<lambda>bp.
          Inr (Some \<lparr>overhead_ms = overhead, overhead_pct = pct, blocked_pct = bp\<rparr>)))))
      else Inr None)"

text \<open>The prompts in first-seen order.\<close>

definition prompts_seen :: "BenchmarkResult list \<Rightarrow> string list" where
  "prompts_seen rs = fold (\<lambda>r seen. if prompt r \<notin> set seen then seen @ [prompt r] else seen) rs []"

text \<open>One row of the detailed table: \<open>mean(times) if times else 0\<close> for each variant.\<close>

record table_row =
  row_prompt :: string
  avg_without :: real
  avg_with :: real
  was_blocked :: bool

definition prompt_times :: "BenchmarkResult list \<Rightarrow> string \<Rightarrow> real list" where
  "prompt_times rs p = map latency_ms (filter (\<lambda>r. prompt r = p \<and> \<not> truthy (error r)) rs)"

definition mean_or_zero :: "real list \<Rightarrow> py_error + real" where
  "mean_or_zero ts = (if ts \<noteq> [] then mean ts else Inr 0)"

definition detail_row ::
  "BenchmarkResult list \<Rightarrow> BenchmarkResult list \<Rightarrow> string \<Rightarrow> py_error + table_row" where
  "detail_row without_gr with_gr p =
     (let without_times = prompt_times without_gr p;
          with_times = prompt_times with_gr p;
          wb = (\<exists>r \<in> set (filter (\<lambda>r. prompt r = p) with_gr). blocked r)
      in bind_err (mean_or_zero without_times) (\<lambda>a.
         bind_err (mean_or_zero with_times) (\<lambda>b.
           Inr \<lparr>row_prompt = p, avg_without = a, avg_with = b, was_blocked = wb\<rparr>)))"

fun detail_rows ::
  "BenchmarkResult list \<Rightarrow> BenchmarkResult list \<Rightarrow> string list \<Rightarrow> py_error + table_row list" where
  "detail_rows without_gr with_gr [] = Inr []"
| "detail_rows without_gr with_gr (p # ps) =
     bind_err (detail_row without_gr with_gr p) (\<lambda>row.
     bind_err (detail_rows without_gr with_gr ps) (\<lambda>rows. Inr (row # rows)))"

text \<open>
  Everything \<open>analyze_results\<close> prints, before formatting, in the order it is computed.
  An exception raised on the way escapes to the caller.
\<close>

record analysis =
  total_without :: nat
  successful_without :: nat
  stats_without :: "latency_stats option"
  total_with :: nat
  successful_with :: nat
  blocked_total :: nat
  stats_with :: "latency_stats option"
  overhead :: "overhead_analysis option"
  detailed :: "table_row list"

definition successful_latencies :: "BenchmarkResult list \<Rightarrow> real list" where
  "successful_latencies rs = map latency_ms (filter (\<lambda>r. \<not> truthy (error r)) rs)"

definition analyze_results :: "benchmark_results \<Rightarrow> py_error + analysis" where
  "analyze_results results =
     (let without_gr = results_without_guardrail results;
          with_gr = results_with_guardrail results;
          latencies_without = successful_latencies without_gr;
          latencies_with = successful_latencies with_gr;
          blocked_count = length (filter blocked with_gr)
      in bind_err (stats_block latencies_without) (\<lambda>sw.
         bind_err (stats_block latencies_with) (\<lambda>sg.
         bind_err (overhead_block latencies_without latencies_with blocked_count (length with_gr)) (\<lambda>ov.
         bind_err (detail_rows without_gr with_gr (prompts_seen without_gr)) (\<lambda>rows.
           Inr \<lparr>total_without = length without_gr,
                successful_without = length latencies_without,
                stats_without = sw,
                total_with = length with_gr,
                successful_with = length latencies_with,
                blocked_total = blocked_count,
                stats_with = sg,
                overhead = ov,
                detailed = rows\<rparr>)))))"

subsection \<open>export_results_json\<close>

definition export_without :: "BenchmarkResult \<Rightarrow> json" where
  "export_without r =
     JObj [(''prompt'', JStr (prompt r)),
           (''latency_ms'', JFloat (latency_ms r)),
           (''input_tokens'', json_opt_int (input_tokens r)),
           (''output_tokens'', json_opt_int (output_tokens r)),
           (''error'', json_opt_str (error r))]"

definition export_with :: "BenchmarkResult \<Rightarrow> json" where
  "export_with r =
     JObj [(''prompt'', JStr (prompt r)),
           (''latency_ms'', JFloat (latency_ms r)),
           (''input_tokens'', json_opt_int (input_tokens r)),
           (''output_tokens'', json_opt_int (output_tokens r)),
           (''blocked'', JBool (blocked r)),
           (''error'', json_opt_str (error r))]"

definition export_results_json :: "benchmark_results \<Rightarrow> json" where
  "export_results_json results =
     JObj [(''config'',
              JObj [(''model_id'', JStr MODEL_ID),
                    (''guardrail_id'', JStr GUARDRAIL_ID),
                    (''guardrail_version'', JStr GUARDRAIL_VERSION),
                    (''region'', JStr REGION)]),
           (''results'',
              JObj [(''without_guardrail'', JArr (map export_without (results_without_guardrail results))),
                    (''with_guardrail'', JArr (map export_with (results_with_guardrail results)))])]"

section \<open>benchmark_pii_comparison.py\<close>

subsection \<open>Regular expressions\<close>

text \<open>
  The fragment of Python's \<open>re\<close> syntax that \<open>PII_PATTERNS\<close> uses, on ASCII text: literal
  characters, character sets with ranges, \<open>\d\<close> and \<open>\s\<close>, the word boundary \<open>\b\<close>,
  concatenation, and greedy bounded or unbounded repetition (\<open>?\<close>, \<open>+\<close>, \<open>{n}\<close>,
  \<open>{n,}\<close>). Groups only delimit what is repeated: the replacement strings refer to none.
\<close>

datatype cls_item = Ch char | Rng char char | Digit | Space

definition is_digit :: "char \<Rightarrow> bool" where
  "is_digit c = in_range (CHR ''0'') (CHR ''9'') c"

definition is_space :: "char \<Rightarrow> bool" where
  "is_space c = (let n = (of_char c :: nat) in (9 \<le> n \<and> n \<le> 13) \<or> (28 \<le> n \<and> n \<le> 32))"

definition is_word :: "char \<Rightarrow> bool" where
  "is_word c = (in_range (CHR ''a'') (CHR ''z'') c \<or> in_range (CHR ''A'') (CHR ''Z'') c
                \<or> is_digit c \<or> c = CHR ''_'')"

fun in_item :: "cls_item \<Rightarrow> char \<Rightarrow> bool" where
  "in_item (Ch a) c = (c = a)"
| "in_item (Rng lo hi) c = in_range lo hi c"
| "in_item Digit c = is_digit c"
| "in_item Space c = is_space c"

datatype re_pattern =
    Lit char
  | Cls "cls_item list"
  | WordB
  | Eps
  | Cat re_pattern re_pattern
  | Rep nat "nat option" re_pattern

text \<open>
  A position in the subject string: the character before it, if any, and the text
  that is left.
\<close>

type_synonym mstate = "char option \<times> string"

definition step_char :: "(char \<Rightarrow> bool) \<Rightarrow> mstate \<Rightarrow> mstate list" where
  "step_char P s = (case snd s of [] \<Rightarrow> [] | c # cs \<Rightarrow> if P c then [(Some c, cs)] else [])"

definition at_boundary :: "mstate \<Rightarrow> bool" where
  "at_boundary s =
     ((case fst s of None \<Rightarrow> False | Some c \<Rightarrow> is_word c)
      \<noteq> (case snd s of [] \<Rightarrow> False | c # cs \<Rightarrow> is_word c))"

text \<open>
  Greedy repetition between \<open>lo\<close> and \<open>hi\<close> times of a matcher \<open>f\<close>: one more iteration
  is tried before stopping, and an iteration has to consume at least one character. The
  second argument bounds the number of iterations by the length of the text left.
\<close>

fun rep_iter ::
  "(mstate \<Rightarrow> mstate list) \<Rightarrow> string \<Rightarrow> nat \<Rightarrow> nat option \<Rightarrow> mstate \<Rightarrow> mstate list" where
  "rep_iter f [] lo hi s = (if lo = 0 then [s] else [])"
| "rep_iter f (c # fuel) lo hi s =
     (if hi = Some 0 then [s]
      else concat (map (rep_iter f fuel (lo - 1) (map_option (\<lambda>h. h - 1) hi))
                       (filter (\<lambda>s'. length (snd s') < length (snd s)) (f s)))
           @ (if lo = 0 then [s] else []))"

text \<open>
  The backtracking matcher: every way to match the pattern at a position, as the list of
  positions where the match can end, in the order in which backtracking tries them. The
  match that \<open>re\<close> reports at a position is the first of the list.
\<close>

primrec matches :: "re_pattern \<Rightarrow> mstate \<Rightarrow> mstate list" where
  "matches (Lit a) = step_char (\<lambda>c. c = a)"
| "matches (Cls items) = step_char (\<lambda>c. \<exists>i \<in> set items. in_item i c)"
| "matches WordB = (\<lambda>s. if at_boundary s then [s] else [])"
| "matches Eps = (\<lambda>s. [s])"
| "matches (Cat r1 r2) = (\<lambda>s. concat (map (matches r2) (matches r1 s)))"
| "matches (Rep lo hi r) = (\<lambda>s. rep_iter (matches r) (snd s) lo hi s)"

text \<open>\<open>pattern.search(text)\<close> as a truth value: some position has a match.\<close>

fun search_from :: "re_pattern \<Rightarrow> char option \<Rightarrow> string \<Rightarrow> bool" where
  "search_from r prev [] = (matches r (prev, []) \<noteq> [])"
| "search_from r prev (c # cs) = (matches r (prev, c # cs) \<noteq> [] \<or> search_from r (Some c) cs)"

definition re_search :: "re_pattern \<Rightarrow> string \<Rightarrow> bool" where
  "re_search r t = search_from r None t"

text \<open>
  \<open>pattern.sub(repl, text)\<close> for a replacement without group references: the leftmost
  matches, none overlapping another, are replaced from left to right; where nothing
  matches the character is copied. An empty match is replaced too and the scan moves on
  by one character.
\<close>

function sub_from :: "re_pattern \<Rightarrow> string \<Rightarrow> char option \<Rightarrow> string \<Rightarrow> string" where
  "sub_from r repl prev s =
     (case matches r (prev, s) of
        [] \<Rightarrow> (case s of [] \<Rightarrow> [] | c # cs \<Rightarrow> c # sub_from r repl (Some c) cs)
      | m # ms \<Rightarrow>
          if length (snd m) < length s then repl @ sub_from r repl (fst m) (snd m)
          else repl @ (case s of [] \<Rightarrow> [] | c # cs \<Rightarrow> c # sub_from r repl (Some c) cs))"
  by pat_completeness auto
termination
  by (relation "measure (\<lambda>(r, repl, prev, s). length s)") auto

definition re_sub :: "re_pattern \<Rightarrow> string \<Rightarrow> string \<Rightarrow> string" where
  "re_sub r repl t = sub_from r repl None t"

text \<open>Pattern notation.\<close>

definition seq :: "re_pattern list \<Rightarrow> re_pattern" where
  "seq rs = foldr Cat rs Eps"

definition opt :: "re_pattern \<Rightarrow> re_pattern" where
  "opt r = Rep 0 (Some 1) r"

definition one_or_more :: "re_pattern \<Rightarrow> re_pattern" where
  "one_or_more r = Rep 1 None r"

definition at_least :: "nat \<Rightarrow> re_pattern \<Rightarrow> re_pattern" where
  "at_least n r = Rep n None r"

definition exactly :: "nat \<Rightarrow> re_pattern \<Rightarrow> re_pattern" where
  "exactly n r = Rep n (Some n) r"

definition digit :: re_pattern where
  "digit = Cls [Digit]"

definition separator :: re_pattern where
  "separator = Cls [Ch (CHR ''-''), Ch (CHR ''.''), Space]"

subsection \<open>PII_PATTERNS\<close>

text \<open>\<open>[a-zA-Z0-9._%+-]+@[a-zA-Z0-9.-]+\.[a-zA-Z]{2,}\<close>\<close>

definition email_pattern :: re_pattern where
  "email_pattern =
     seq [one_or_more (Cls [Rng (CHR ''a'') (CHR ''z''), Rng (CHR ''A'') (CHR ''Z''),
                            Rng (CHR ''0'') (CHR ''9''), Ch (CHR ''.''), Ch (CHR ''_''),
                            Ch (CHR ''%''), Ch (CHR ''+''), Ch (CHR ''-'')]),
          Lit (CHR ''@''),
          one_or_more (Cls [Rng (CHR ''a'') (CHR ''z''), Rng (CHR ''A'') (CHR ''Z''),
                            Rng (CHR ''0'') (CHR ''9''), Ch (CHR ''.''), Ch (CHR ''-'')]),
          Lit (CHR ''.''),
          at_least 2 (Cls [Rng (CHR ''a'') (CHR ''z''), Rng (CHR ''A'') (CHR ''Z'')])]"

text \<open>\<open>(\+?1[-.\s]?)?\(?\d{3}\)?[-.\s]?\d{3}[-.\s]?\d{4}\<close>\<close>

definition phone_pattern :: re_pattern where
  "phone_pattern =
     seq [opt (seq [opt (Lit (CHR ''+'')), Lit (CHR ''1''), opt separator]),
          opt (Lit (CHR ''('')), exactly 3 digit, opt (Lit (CHR '')'')),
          opt separator, exactly 3 digit, opt separator, exactly 4 digit]"

text \<open>\<open>\b\d{3}[-.\s]?\d{2}[-.\s]?\d{4}\b\<close>\<close>

definition ssn_pattern :: re_pattern where
  "ssn_pattern =
     seq [WordB, exactly 3 digit, opt separator, exactly 2 digit, opt separator,
          exactly 4 digit, WordB]"

text \<open>\<open>\b(?:\d{4}[-.\s]?){3}\d{4}\b\<close>\<close>

definition credit_card_pattern :: re_pattern where
  "credit_card_pattern =
     seq [WordB, exactly 3 (seq [exactly 4 digit, opt separator]), exactly 4 digit, WordB]"

text \<open>The dictionary, in insertion order.\<close>

definition PII_PATTERNS :: "(string \<times> re_pattern) list" where
  "PII_PATTERNS =
     [(''email'', email_pattern), (''phone'', phone_pattern),
      (''ssn'', ssn_pattern), (''credit_card'', credit_card_pattern)]"

subsection \<open>detect_pii_regex and anonymize_pii_regex\<close>

text \<open>The PII types whose pattern is found in the text, in the order of the dictionary.\<close>

definition pii_types_found :: "string \<Rightarrow> string list" where
  "pii_types_found t = map fst (filter (\<lambda>(pii_type, pattern). re_search pattern t) PII_PATTERNS)"

text \<open>
  The wall-clock cost of one pass of the four searches over a text: a quantity of the
  machine, which the model takes as given.
\<close>

type_synonym regex_cost = "world \<Rightarrow> string \<Rightarrow> real"

definition detect_pii_regex ::
  "regex_cost \<Rightarrow> string \<Rightarrow> world \<Rightarrow> (string list \<times> real) \<times> world" where
  "detect_pii_regex cost t w0 =
     (let start = perf_counter w0;
          found = pii_types_found t;
          w1 = elapse (cost w0 t) w0;
          elapsed_ms = (perf_counter w1 - start) * 1000
      in ((found, elapsed_ms), w1))"

text \<open>
  The four substitutions in the order of the source; \<open>PII_PATTERNS["email"]\<close> is
  \<open>email_pattern\<close>, and so on.
\<close>

definition anonymize_pii_regex :: "string \<Rightarrow> string" where
  "anonymize_pii_regex t =
     (let result = t;
          result = re_sub email_pattern ''[EMAIL]'' result;
          result = re_sub phone_pattern ''[PHONE]'' result;
          result = re_sub ssn_pattern ''[SSN]'' result;
          result = re_sub credit_card_pattern ''[CARD]'' result
      in result)"

subsection \<open>The result of one call\<close>

text \<open>
  The \<open>BenchmarkResult\<close> of this script. Its fields \<open>prompt\<close>, \<open>method\<close>, \<open>latency_ms\<close>,
  \<open>blocked\<close> and \<open>error\<close> carry the prefix \<open>p_\<close> here.
\<close>

record PiiBenchmarkResult =
  p_prompt :: string
  p_method :: string
  p_latency_ms :: real
  pii_check_ms :: real
  total_ms :: real
  pii_found :: "string list"
  p_blocked :: bool
  p_error :: "string option"

definition SIMPLE_PII_GUARDRAIL_ID :: string where
  "SIMPLE_PII_GUARDRAIL_ID = ''beraeckuf5js''"

definition SIMPLE_PII_GUARDRAIL_VERSION :: string where
  "SIMPLE_PII_GUARDRAIL_VERSION = ''1''"

text \<open>The request of this script: 256 tokens at most, no \<open>topP\<close>.\<close>

definition pii_request :: "string \<Rightarrow> string option \<Rightarrow> string option \<Rightarrow> api_params" where
  "pii_request t gid gver =
     \<lparr>modelId = MODEL_ID,
      body = \<lparr>user_text = t, maxTokens = 256, temperature = 7 / 10, topP = None\<rparr>,
      contentType = ''application/json'', accept = ''application/json'',
      guardrailIdentifier = gid, guardrailVersion = gver\<rparr>"

subsection \<open>invoke_no_protection\<close>

text \<open>The baseline: the clock is read again after the body has been read and parsed.\<close>

definition invoke_no_protection :: "client \<Rightarrow> string \<Rightarrow> world \<Rightarrow> PiiBenchmarkResult \<times> world" where
  "invoke_no_protection client p w0 =
     (let start = perf_counter w0;
          out = client w0 (pii_request p None None);
          w1 = after_call (call_secs out) w0;
          except = (\<lambda>e w.
             let latency = (perf_counter w - start) * 1000
             in \<lparr>p_prompt = prompt_label p, p_method = ''no_protection'', p_latency_ms = latency,
                 pii_check_ms = 0, total_ms = latency, pii_found = [], p_blocked = False,
                 p_error = Some (exn_text e)\<rparr>)
      in case call_result out of
           Inl e \<Rightarrow> (except e w1, w1)
         | Inr response \<Rightarrow>
             (let w2 = elapse (read_secs response) w1
              in case read_result response of
                   Inl e \<Rightarrow> (except e w2, w2)
                 | Inr response_body \<Rightarrow>
                     (let latency = (perf_counter w2 - start) * 1000
                      in (\<lparr>p_prompt = prompt_label p, p_method = ''no_protection'',
                           p_latency_ms = latency, pii_check_ms = 0, total_ms = latency,
                           pii_found = [], p_blocked = False, p_error = None\<rparr>, w2))))"

subsection \<open>invoke_with_guardrail\<close>

text \<open>
  The guardrail of the service: the clock is read again when the call returns, before
  the body is read.
\<close>

definition invoke_with_guardrail :: "client \<Rightarrow> string \<Rightarrow> world \<Rightarrow> PiiBenchmarkResult \<times> world" where
  "invoke_with_guardrail client p w0 =
     (let start = perf_counter w0;
          out = client w0 (pii_request p (Some SIMPLE_PII_GUARDRAIL_ID) (Some SIMPLE_PII_GUARDRAIL_VERSION));
          w1 = after_call (call_secs out) w0;
          except = (\<lambda>e w.
             let latency = (perf_counter w - start) * 1000
             in \<lparr>p_prompt = prompt_label p, p_method = ''guardrail'', p_latency_ms = latency,
                 pii_check_ms = 0, total_ms = latency, pii_found = [],
                 p_blocked = str_contains ''guardrail'' (lower (exn_text e)),
                 p_error = Some (exn_text e)\<rparr>)
      in case call_result out of
           Inl e \<Rightarrow> (except e w1, w1)
         | Inr response \<Rightarrow>
             (let latency = (perf_counter w1 - start) * 1000;
                  w2 = elapse (read_secs response) w1
              in case read_result response of
                   Inl e \<Rightarrow> (except e w2, w2)
                 | Inr response_body \<Rightarrow>
                     (let is_blocked = (stopReason response_body = Some ''guardrail_intervened'')
                      in (\<lparr>p_prompt = prompt_label p, p_method = ''guardrail'',
                           p_latency_ms = latency, pii_check_ms = 0, total_ms = latency,
                           pii_found = [], p_blocked = is_blocked, p_error = None\<rparr>, w2))))"

subsection \<open>invoke_with_regex\<close>

text \<open>
  The text of the completion that is checked after the call:
  \<open>response_body["output"]["message"]["content"][0]["text"]\<close> when all of it is there,
  the empty string otherwise.
\<close>

definition output_text :: "response_body \<Rightarrow> string" where
  "output_text rb =
     (case output_field rb of
        None \<Rightarrow> []
      | Some out \<Rightarrow>
          (case message_field out of
             None \<Rightarrow> []
           | Some msg \<Rightarrow>
               (case (case content_field msg of None \<Rightarrow> [] | Some cs \<Rightarrow> cs) of
                  [] \<Rightarrow> []
                | b # bs \<Rightarrow> (case block_text b of None \<Rightarrow> [] | Some t \<Rightarrow> t))))"

text \<open>
  The local filter: the prompt is checked, and anonymised when something was found,
  before the call; the completion is checked after it. \<open>list(set(xs))\<close> keeps one copy of
  each element, in an order the language leaves open: the model fixes one such order.
\<close>

definition invoke_with_regex ::
  "regex_cost \<Rightarrow> client \<Rightarrow> string \<Rightarrow> world \<Rightarrow> PiiBenchmarkResult \<times> world" where
  "invoke_with_regex cost client p w0 =
     (let ((input_pii, input_check_time), wa) = detect_pii_regex cost p w0;
          processed_prompt = (if input_pii \<noteq> [] then anonymize_pii_regex p else p);
          model_start = perf_counter wa;
          out = client wa (pii_request processed_prompt None None);
          w1 = after_call (call_secs out) wa;
          except = (\<lambda>e w.
             let model_latency = (perf_counter w - model_start) * 1000
             in \<lparr>p_prompt = prompt_label p, p_method = ''regex'', p_latency_ms = model_latency,
                 pii_check_ms = input_check_time, total_ms = model_latency + input_check_time,
                 pii_found = input_pii, p_blocked = False, p_error = Some (exn_text e)\<rparr>)
      in case call_result out of
           Inl e \<Rightarrow> (except e w1, w1)
         | Inr response \<Rightarrow>
             (let model_latency = (perf_counter w1 - model_start) * 1000;
                  w2 = elapse (read_secs response) w1
              in case read_result response of
                   Inl e \<Rightarrow> (except e w2, w2)
                 | Inr response_body \<Rightarrow>
                     (let ((output_pii, output_check_time), w3) =
                            detect_pii_regex cost (output_text response_body) w2;
                          total_pii_check = input_check_time + output_check_time;
                          all_pii = remdups (input_pii @ output_pii)
                      in (\<lparr>p_prompt = prompt_label p, p_method = ''regex'',
                           p_latency_ms = model_latency, pii_check_ms = total_pii_check,
                           total_ms = model_latency + total_pii_check,
                           pii_found = all_pii, p_blocked = False, p_error = None\<rparr>, w3))))"

subsection \<open>run_benchmark of the PII comparison\<close>

text \<open>The dictionary of results: its three keys are fixed.\<close>

record pii_results =
  no_protection_results :: "PiiBenchmarkResult list"
  guardrail_results :: "PiiBenchmarkResult list"
  regex_results :: "PiiBenchmarkResult list"

text \<open>\<open>results.items()\<close>: the methods in insertion order.\<close>

definition pii_items :: "pii_results \<Rightarrow> (string \<times> PiiBenchmarkResult list) list" where
  "pii_items results =
     [(''no_protection'', no_protection_results results),
      (''guardrail'', guardrail_results results),
      (''regex'', regex_results results)]"

definition pii_run_iteration ::
  "regex_cost \<Rightarrow> client \<Rightarrow> string \<Rightarrow> pii_results \<times> world \<Rightarrow> pii_results \<times> world" where
  "pii_run_iteration cost client p st =
     (let (results, w) = st;
          (r1, w1) = invoke_no_protection client p w;
          results1 = results\<lparr>no_protection_results := no_protection_results results @ [r1]\<rparr>;
          (r2, w2) = invoke_with_guardrail client p w1;
          results2 = results1\<lparr>guardrail_results := guardrail_results results1 @ [r2]\<rparr>;
          (r3, w3) = invoke_with_regex cost client p w2
      in (results2\<lparr>regex_results := regex_results results2 @ [r3]\<rparr>, w3))"

definition pii_run_benchmark ::
  "regex_cost \<Rightarrow> client \<Rightarrow> string list \<Rightarrow> int \<Rightarrow> world \<Rightarrow> pii_results \<times> world" where
  "pii_run_benchmark cost client prompts iterations w0 =
     (let (warm1, w1) = invoke_no_protection client ''Hello'' w0;
          (warm2, w2) = invoke_with_guardrail client ''Hello'' w1;
          (warm3, w3) = invoke_with_regex cost client ''Hello'' w2
      in fold (\<lambda>p. fold (\<lambda>i. pii_run_iteration cost client p) [0..<nat iterations]) prompts
           (\<lparr>no_protection_results = [], guardrail_results = [], regex_results = []\<rparr>, w3))"

subsection \<open>analyze_results of the PII comparison\<close>

record method_summary =
  method_name :: string
  requests :: nat
  n_successful :: nat
  n_blocked :: nat
  mean_total :: real
  median_total :: real
  min_total :: real
  max_total :: real
  stdev_total :: "real option"

definition successful_totals :: "PiiBenchmarkResult list \<Rightarrow> real list" where
  "successful_totals rs = map total_ms (filter (\<lambda>r. \<not> truthy (p_error r)) rs)"

text \<open>One round of the loop over the methods: \<open>continue\<close> when there is no latency.\<close>

definition method_block ::
  "string \<times> PiiBenchmarkResult list \<Rightarrow> py_error + method_summary option" where
  "method_block item =
     (let (m, rs) = item;
          latencies = successful_totals rs;
          nb = length (filter p_blocked rs)
      in if latencies = [] then Inr None
         else bind_err (mean latencies) (\<lambda>mn.
              bind_err (median latencies) (\<lambda>md.
              bind_err (py_min latencies) (\<lambda>lo.
              bind_err (py_max latencies) (\<lambda>hi.
              bind_err (if 1 < length latencies then bind_err (stdev latencies) (\<lambda>d. Inr (Some d))
                        else Inr None) (\<lambda>sd.
                Inr (Some \<lparr>method_name = m, requests = length rs, n_successful = length latencies,
                           n_blocked = nb, mean_total = mn, median_total = md, min_total = lo,
                           max_total = hi, stdev_total = sd\<rparr>)))))))"

fun method_blocks ::
  "(string \<times> PiiBenchmarkResult list) list \<Rightarrow> py_error + method_summary option list" where
  "method_blocks [] = Inr []"
| "method_blocks (item # items) =
     bind_err (method_block item) (\<lambda>b.
     bind_err (method_blocks items) (\<lambda>bs. Inr (b # bs)))"

record overhead_comparison =
  baseline_ms :: real
  guardrail_overhead_ms :: real
  guardrail_overhead_pct :: real
  regex_overhead_ms :: real
  regex_overhead_pct :: real
  guardrail_vs_regex_ms :: real

definition overhead_comparison_block ::
  "real list \<Rightarrow> real list \<Rightarrow> real list \<Rightarrow> py_error + overhead_comparison option" where
  "overhead_comparison_block no_prot guardrail rgx =
     (if no_prot \<noteq> [] \<and> guardrail \<noteq> [] \<and> rgx \<noteq> [] then
        bind_err (mean no_prot) (\<lambda>baseline.
        bind_err (mean guardrail) (\<lambda>gr_mean.
        bind_err (mean rgx) (\<lambda>rx_mean.
        bind_err (py_div gr_mean baseline) (\<lambda>gq.
        bind_err (py_div rx_mean baseline) (\<lambda>rq.
          Inr (Some \<lparr>baseline_ms = baseline,
                     guardrail_overhead_ms = float_sub gr_mean baseline,
                     guardrail_overhead_pct = float_mul (float_sub gq 1) 100,
                     regex_overhead_ms = float_sub rx_mean baseline,
                     regex_overhead_pct = float_mul (float_sub rq 1) 100,
                     guardrail_vs_regex_ms = float_sub gr_mean rx_mean\<rparr>))))))
      else Inr None)"

definition regex_timing_block :: "PiiBenchmarkResult list \<Rightarrow> py_error + real option" where
  "regex_timing_block rs =
     (let ok = filter (\<lambda>r. \<not> truthy (p_error r)) rs
      in if ok \<noteq> [] then bind_err (mean (map pii_check_ms ok)) (\<lambda>a. Inr (Some a)) else Inr None)"

record pii_analysis =
  summaries :: "method_summary option list"
  comparison :: "overhead_comparison option"
  avg_pii_check :: "real option"

definition pii_analyze_results :: "pii_results \<Rightarrow> py_error + pii_analysis" where
  "pii_analyze_results results =
     bind_err (method_blocks (pii_items results)) (\<lambda>blocks.
     bind_err (overhead_comparison_block
                 (successful_totals (no_protection_results results))
                 (successful_totals (guardrail_results results))
                 (successful_totals (regex_results results))) (\<lambda>cmp.
     bind_err (regex_timing_block (regex_results results)) (\<lambda>timing.
       Inr \<lparr>summaries = blocks, comparison = cmp, avg_pii_check = timing\<rparr>)))"

subsection \<open>export_results of the PII comparison\<close>

definition pii_export_entry :: "PiiBenchmarkResult \<Rightarrow> json" where
  "pii_export_entry r =
     JObj [(''prompt'', JStr (p_prompt r)),
           (''latency_ms'', JFloat (p_latency_ms r)),
           (''pii_check_ms'', JFloat (pii_check_ms r)),
           (''total_ms'', JFloat (total_ms r)),
           (''pii_found'', JArr (map JStr (pii_found r))),
           (''blocked'', JBool (p_blocked r)),
           (''error'', json_opt_str (p_error r))]"

definition pii_export_results :: "pii_results \<Rightarrow> json" where
  "pii_export_results results =
     JObj [(''config'',
              JObj [(''model'', JStr MODEL_ID),
                    (''guardrail_id'', JStr SIMPLE_PII_GUARDRAIL_ID),
                    (''region'', JStr REGION)]),
           (''results'',
              JObj (map (\<lambda>(m, rs). (m, JArr (map pii_export_entry rs))) (pii_items results)))]"

section \<open>Notions used to state the properties\<close>

text \<open>
  The nearest-rank 95th percentile in the words of the specification: the maximum below
  20 samples, the element at index \<open>floor(0.95 * n)\<close> of the ascending list otherwise.
\<close>

definition spec_p95 :: "real list \<Rightarrow> real" where
  "spec_p95 l = (if length l < 20 then Max (set l)
                 else sort l ! nat \<lfloor>(95 / 100) * real (length l)\<rfloor>)"

text \<open>The \<open>try\<close> block of an invoke operation raises \<open>e\<close>: the call does, or reading the body does.\<close>

definition try_raises :: "call_outcome \<Rightarrow> exn \<Rightarrow> bool" where
  "try_raises out e =
     (case call_result out of Inl e' \<Rightarrow> e' = e | Inr resp \<Rightarrow> read_result resp = Inl e)"

text \<open>The call returns and its body parses to \<open>rb\<close>.\<close>

definition try_succeeds :: "call_outcome \<Rightarrow> response_body \<Rightarrow> bool" where
  "try_succeeds out rb =
     (case call_result out of Inl e \<Rightarrow> False | Inr resp \<Rightarrow> read_result resp = Inr rb)"

text \<open>
  The time, in seconds, between the start of the call and the moment an outcome is
  settled: up to the failure when the call or the reading of the body fails; on success
  up to the parsed body when \<open>with_parsing\<close> holds, and up to the return of the call
  otherwise.
\<close>

definition measured_span :: "bool \<Rightarrow> call_outcome \<Rightarrow> real" where
  "measured_span with_parsing out =
     (case call_result out of
        Inl e \<Rightarrow> call_secs out
      | Inr resp \<Rightarrow>
          (case read_result resp of
             Inl e \<Rightarrow> call_secs out + read_secs resp
           | Inr rb \<Rightarrow> if with_parsing then call_secs out + read_secs resp else call_secs out))"

text \<open>\<open>time.perf_counter()\<close> is monotonic: no operation takes negative time.\<close>

definition monotonic :: "regex_cost \<Rightarrow> client \<Rightarrow> bool" where
  "monotonic cost client =
     ((\<forall>w t. 0 \<le> cost w t) \<and>
      (\<forall>w q. 0 \<le> call_secs (client w q) \<and>
             (case call_result (client w q) of Inl e \<Rightarrow> True | Inr resp \<Rightarrow> 0 \<le> read_secs resp)))"

text \<open>
  Sample inputs for the worked instances: an endpoint that answers every request in the
  same way, a call that raises, a call that returns a body, a regular-expression pass of
  constant cost, and the state of the world at the start of a run.
\<close>

definition steady_client :: "call_outcome \<Rightarrow> client" where
  "steady_client out w q = out"

definition raising :: "real \<Rightarrow> exn \<Rightarrow> call_outcome" where
  "raising d e = \<lparr>call_secs = d, call_result = Inl e\<rparr>"

definition answering :: "real \<Rightarrow> real \<Rightarrow> response_body \<Rightarrow> call_outcome" where
  "answering d d' rb = \<lparr>call_secs = d, call_result = Inr \<lparr>read_secs = d', read_result = Inr rb\<rparr>\<rparr>"

definition steady_cost :: "real \<Rightarrow> regex_cost" where
  "steady_cost d w t = d"

definition start_world :: world where
  "start_world = \<lparr>clock = 0, calls = 0\<rparr>"

section \<open>Properties of the statistics of benchmark.py\<close>


lemma py_max_Max: "l \<noteq> [] \<Longrightarrow> py_max l = Inr (Max (set l))"
proof (cases l)
  case (Cons x xs)
  then show ?thesis using Max.set_eq_fold [of x xs] by simp
qed simp

lemma py_min_Min: "l \<noteq> [] \<Longrightarrow> py_min l = Inr (Min (set l))"
proof (cases l)
  case (Cons x xs)
  then show ?thesis using Min.set_eq_fold [of x xs] by simp
qed simp

lemma p95_index_bound:
  assumes "0 < n"
  shows "0 \<le> py_int (real n * (95 / 100)) \<and> py_int (real n * (95 / 100)) < int n"
proof -
  have a: "0 \<le> real n * (95 / 100)" by simp
  have b: "real n * (95 / 100) < real n" using assms by simp
  have "\<lfloor>real n * (95 / 100)\<rfloor> < int n" using b by (simp add: floor_less_iff)
  moreover have "0 \<le> \<lfloor>real n * (95 / 100)\<rfloor>" using a by simp
  ultimately show ?thesis using a by (simp add: py_int_def)
qed

lemma p95_spec:
  assumes "l \<noteq> []"
  shows "p95 l = Inr (spec_p95 l)"
proof (cases "20 \<le> length l")
  case True
  then have n: "0 < length l" by linarith
  from p95_index_bound [OF n] True show ?thesis
    by (auto simp add: p95_def spec_p95_def py_index_def py_int_def Let_def mult.commute)
next
  case False
  with assms show ?thesis by (simp add: p95_def spec_p95_def py_max_Max)
qed

lemma mean_Inr: "l \<noteq> [] \<Longrightarrow> mean l = Inr (sum_list l / real (length l))"
  by (simp add: mean_def)

lemma sort_Nil_iff: "sort l = [] \<longleftrightarrow> l = []"
  by (metis length_sort length_0_conv)

lemma median_Inl: "median l = Inl e \<Longrightarrow> l = []"
  by (simp add: median_def Let_def sort_Nil_iff split: if_splits)

lemma median_Inr: "l \<noteq> [] \<Longrightarrow> \<exists>m. median l = Inr m"
  by (cases "median l") (auto dest: median_Inl)

lemma stdev_opt_Inr:
  "\<exists>sd. (if 1 < length l then bind_err (stdev l) (\<lambda>s. Inr (Some s)) else Inr None) = (Inr sd :: py_error + real option)"
  by (simp add: stdev_def bind_err_def Let_def)

lemma latency_summary_Inr:
  assumes "l \<noteq> []"
  shows "\<exists>s. latency_summary l = Inr s \<and> mean_latency s = sum_list l / real (length l)
             \<and> min_latency s = Min (set l) \<and> max_latency s = Max (set l)
             \<and> p95_latency s = spec_p95 l"
proof -
  obtain m where m: "median l = Inr m" using median_Inr [OF assms] by blast
  obtain sd where sd: "(if 1 < length l then bind_err (stdev l) (\<lambda>s. Inr (Some s)) else Inr None) = (Inr sd :: py_error + real option)"
    using stdev_opt_Inr by blast
  show ?thesis
    unfolding latency_summary_def
    by (simp only: mean_Inr [OF assms] m sd py_min_Min [OF assms] py_max_Max [OF assms] p95_spec [OF assms])
       (simp add: bind_err_def)
qed

lemma stats_block_cases:
  "(l = [] \<and> stats_block l = Inr None) \<or>
   (l \<noteq> [] \<and> (\<exists>s. stats_block l = Inr (Some s) \<and> mean_latency s = sum_list l / real (length l)
             \<and> min_latency s = Min (set l) \<and> max_latency s = Max (set l)
             \<and> p95_latency s = spec_p95 l))"
proof (cases "l = []")
  case True
  then show ?thesis by (simp add: stats_block_def)
next
  case False
  from latency_summary_Inr [OF False] obtain s where
    "latency_summary l = Inr s" "mean_latency s = sum_list l / real (length l)"
    "min_latency s = Min (set l)" "max_latency s = Max (set l)" "p95_latency s = spec_p95 l"
    by blast
  with False show ?thesis by (simp add: stats_block_def bind_err_def)
qed

lemma bind_err_Inr_iff:
  "bind_err m f = Inr y \<longleftrightarrow> (\<exists>x. m = Inr x \<and> f x = Inr y)"
  by (cases m) (simp_all add: bind_err_def)



lemma stats_block_total: "\<exists>s. stats_block l = Inr s"
  using stats_block_cases [of l] by auto

lemma mean_or_zero_total: "\<exists>m. mean_or_zero ts = Inr m"
  by (simp add: mean_or_zero_def mean_def)

lemma detail_row_total: "\<exists>row. detail_row a b p = Inr row \<and> row_prompt row = p
    \<and> (prompt_times a p = [] \<longrightarrow> avg_without row = 0)
    \<and> (prompt_times b p = [] \<longrightarrow> avg_with row = 0)"
  by (simp add: detail_row_def Let_def mean_or_zero_def mean_def bind_err_def)

lemma detail_rows_total:
  "\<exists>rows. detail_rows a b ps = Inr rows \<and> map row_prompt rows = ps
     \<and> (\<forall>row \<in> set rows. (prompt_times a (row_prompt row) = [] \<longrightarrow> avg_without row = 0)
                         \<and> (prompt_times b (row_prompt row) = [] \<longrightarrow> avg_with row = 0))"
proof (induction ps)
  case Nil
  show ?case by simp
next
  case (Cons p ps)
  from detail_row_total [of a b p] obtain row where row: "detail_row a b p = Inr row"
    "row_prompt row = p" "prompt_times a p = [] \<longrightarrow> avg_without row = 0"
    "prompt_times b p = [] \<longrightarrow> avg_with row = 0" by blast
  from Cons.IH obtain rows where rows: "detail_rows a b ps = Inr rows" "map row_prompt rows = ps"
    "\<forall>row \<in> set rows. (prompt_times a (row_prompt row) = [] \<longrightarrow> avg_without row = 0)
                         \<and> (prompt_times b (row_prompt row) = [] \<longrightarrow> avg_with row = 0)" by blast
  show ?case using row rows by (simp add: bind_err_def)
qed

lemma overhead_block_None:
  "lw = [] \<or> lg = [] \<Longrightarrow> overhead_block lw lg bc n = Inr None"
  by (auto simp add: overhead_block_def)


lemma overhead_block_ZeroDivision:
  assumes "mean lw = Inr 0" "lg \<noteq> []"
  shows "overhead_block lw lg bc n = Inl ZeroDivisionError"
proof -
  from assms(1) have "lw \<noteq> []" by (auto simp add: mean_def split: if_splits)
  with assms show ?thesis by (simp add: overhead_block_def bind_err_def py_div_def Let_def mean_def)
qed


lemma analyze_results_Inr:
  assumes "overhead_block (successful_latencies (results_without_guardrail results))
             (successful_latencies (results_with_guardrail results))
             (length (filter blocked (results_with_guardrail results)))
             (length (results_with_guardrail results)) = Inr ov"
  shows "\<exists>a. analyze_results results = Inr a \<and> overhead a = ov
           \<and> stats_block (successful_latencies (results_without_guardrail results)) = Inr (stats_without a)
           \<and> stats_block (successful_latencies (results_with_guardrail results)) = Inr (stats_with a)
           \<and> successful_without a = length (successful_latencies (results_without_guardrail results))
           \<and> successful_with a = length (successful_latencies (results_with_guardrail results))
           \<and> total_without a = length (results_without_guardrail results)
           \<and> total_with a = length (results_with_guardrail results)
           \<and> (\<forall>row \<in> set (detailed a).
                 (prompt_times (results_without_guardrail results) (row_prompt row) = [] \<longrightarrow> avg_without row = 0)
               \<and> (prompt_times (results_with_guardrail results) (row_prompt row) = [] \<longrightarrow> avg_with row = 0))"
proof -
  obtain sw where sw: "stats_block (successful_latencies (results_without_guardrail results)) = Inr sw"
    using stats_block_total by blast
  obtain sg where sg: "stats_block (successful_latencies (results_with_guardrail results)) = Inr sg"
    using stats_block_total by blast
  obtain rows where rows: "detail_rows (results_without_guardrail results) (results_with_guardrail results)
       (prompts_seen (results_without_guardrail results)) = Inr rows"
     "\<forall>row \<in> set rows.
                 (prompt_times (results_without_guardrail results) (row_prompt row) = [] \<longrightarrow> avg_without row = 0)
               \<and> (prompt_times (results_with_guardrail results) (row_prompt row) = [] \<longrightarrow> avg_with row = 0)"
    using detail_rows_total by blast
  show ?thesis
    unfolding analyze_results_def Let_def
    by (simp only: sw sg assms rows(1)) (simp add: bind_err_def rows(2))
qed





subsection \<open>The analysis of the PII comparison\<close>

lemma successful_totals_filter:
  "filter (\<lambda>r. \<not> truthy (p_error r)) rs = [] \<longleftrightarrow> successful_totals rs = []"
  by (simp add: successful_totals_def)

lemma method_block_cases:
  "(successful_totals rs = [] \<and> method_block (m, rs) = Inr None) \<or>
   (successful_totals rs \<noteq> [] \<and>
      (\<exists>s. method_block (m, rs) = Inr (Some s) \<and> method_name s = m
           \<and> mean_total s = sum_list (successful_totals rs) / real (length (successful_totals rs))))"
proof (cases "successful_totals rs = []")
  case True
  then show ?thesis by (simp add: method_block_def)
next
  case False
  obtain md where md: "median (successful_totals rs) = Inr md" using median_Inr [OF False] by blast
  obtain sd where sd: "(if 1 < length (successful_totals rs)
       then bind_err (stdev (successful_totals rs)) (\<lambda>d. Inr (Some d)) else Inr None)
         = (Inr sd :: py_error + real option)"
    using stdev_opt_Inr by blast
  have "\<exists>s. method_block (m, rs) = Inr (Some s) \<and> method_name s = m
           \<and> mean_total s = sum_list (successful_totals rs) / real (length (successful_totals rs))"
    unfolding method_block_def Let_def prod.case
    by (simp only: mean_Inr [OF False] md sd py_min_Min [OF False] py_max_Max [OF False])
       (simp add: bind_err_def False)
  with False show ?thesis by blast
qed

lemma method_blocks_items:
  "\<exists>b1 b2 b3. method_blocks (pii_items results) = Inr [b1, b2, b3]
     \<and> method_block (''no_protection'', no_protection_results results) = Inr b1
     \<and> method_block (''guardrail'', guardrail_results results) = Inr b2
     \<and> method_block (''regex'', regex_results results) = Inr b3"
proof -
  obtain b1 where b1: "method_block (''no_protection'', no_protection_results results) = Inr b1"
    using method_block_cases [of "no_protection_results results" "''no_protection''"] by blast
  obtain b2 where b2: "method_block (''guardrail'', guardrail_results results) = Inr b2"
    using method_block_cases [of "guardrail_results results" "''guardrail''"] by blast
  obtain b3 where b3: "method_block (''regex'', regex_results results) = Inr b3"
    using method_block_cases [of "regex_results results" "''regex''"] by blast
  show ?thesis by (simp add: pii_items_def b1 b2 b3 bind_err_def)
qed

lemma overhead_comparison_block_None:
  "no_prot = [] \<or> guardrail = [] \<or> rgx = [] \<Longrightarrow> overhead_comparison_block no_prot guardrail rgx = Inr None"
  by (auto simp add: overhead_comparison_block_def)



lemma regex_timing_block_cases:
  "(successful_totals rs = [] \<and> regex_timing_block rs = Inr None) \<or>
   (successful_totals rs \<noteq> [] \<and> (\<exists>t. regex_timing_block rs = Inr (Some t)))"
  by (auto simp add: regex_timing_block_def Let_def successful_totals_def mean_def bind_err_def)

lemma pii_analyze_results_Inr:
  assumes "overhead_comparison_block (successful_totals (no_protection_results results))
             (successful_totals (guardrail_results results))
             (successful_totals (regex_results results)) = Inr cmp"
  shows "\<exists>a b1 b2 b3. pii_analyze_results results = Inr a \<and> comparison a = cmp
           \<and> summaries a = [b1, b2, b3]
           \<and> method_block (''no_protection'', no_protection_results results) = Inr b1
           \<and> method_block (''guardrail'', guardrail_results results) = Inr b2
           \<and> method_block (''regex'', regex_results results) = Inr b3
           \<and> regex_timing_block (regex_results results) = Inr (avg_pii_check a)"
proof -
  obtain b1 b2 b3 where b: "method_blocks (pii_items results) = Inr [b1, b2, b3]"
     "method_block (''no_protection'', no_protection_results results) = Inr b1"
     "method_block (''guardrail'', guardrail_results results) = Inr b2"
     "method_block (''regex'', regex_results results) = Inr b3"
    using method_blocks_items by blast
  obtain t where t: "regex_timing_block (regex_results results) = Inr t"
    using regex_timing_block_cases [of "regex_results results"] by blast
  show ?thesis
    unfolding pii_analyze_results_def
    by (simp only: b(1) assms t) (simp add: bind_err_def b t)
qed

lemma to_double_zero: "to_double 0 = 0"
  by (simp add: to_double_def)


lemma analyze_results_rows:
  assumes "analyze_results results = Inr a"
  shows "\<forall>row \<in> set (detailed a).
           (prompt_times (results_without_guardrail results) (row_prompt row) = [] \<longrightarrow> avg_without row = 0)
         \<and> (prompt_times (results_with_guardrail results) (row_prompt row) = [] \<longrightarrow> avg_with row = 0)"
proof -
  from assms obtain ov where "overhead_block (successful_latencies (results_without_guardrail results))
             (successful_latencies (results_with_guardrail results))
             (length (filter blocked (results_with_guardrail results)))
             (length (results_with_guardrail results)) = Inr ov"
    by (auto simp add: analyze_results_def Let_def bind_err_Inr_iff)
  from analyze_results_Inr [OF this] assms show ?thesis by auto
qed

subsection \<open>The percentage overhead\<close>









subsection \<open>Variants and prompts without a successful sample\<close>

text \<open>
  Claim C6, as stated, fails for the per-prompt groups: the only call with the guardrail
  for the prompt \<open>p\<close> failed, and the row of the detailed table reports the average 0
  for it.
\<close>

theorem C6_counterexample:
  "prompt_times
     [\<lparr>prompt = ''p'', with_guardrail = True, latency_ms = 250, input_tokens = None,
       output_tokens = None, blocked = False, error = Some ''boom''\<rparr>] ''p'' = []
   \<and> (case analyze_results
          \<lparr>results_without_guardrail =
             [\<lparr>prompt = ''p'', with_guardrail = False, latency_ms = 100, input_tokens = None,
               output_tokens = None, blocked = False, error = None\<rparr>],
           results_with_guardrail =
             [\<lparr>prompt = ''p'', with_guardrail = True, latency_ms = 250, input_tokens = None,
               output_tokens = None, blocked = False, error = Some ''boom''\<rparr>]\<rparr>
       of Inl e \<Rightarrow> None
        | Inr a \<Rightarrow> Some (map (\<lambda>row. (row_prompt row, avg_without row, avg_with row)) (detailed a)))
     = Some [(''p'', 100, 0)]"
  by (simp add: analyze_results_def successful_latencies_def truthy_def stats_block_def
        latency_summary_def mean_def median_def py_index_def p95_def overhead_block_def
        prompts_seen_def detail_row_def prompt_times_def mean_or_zero_def bind_err_def Let_def)

text \<open>
  Claim C6, amended. When a variant has no successful sample, no mean is computed over
  the empty list and no exception escapes from the analysis: the statistics of the
  variant are left out of the report, and so is the overhead comparison. For a prompt
  with no successful sample in a variant, the detailed table of \<open>benchmark.py\<close> reports
  the average 0.
\<close>

theorem C6_no_data:
  "(\<forall>results.
      successful_latencies (results_without_guardrail results) = []
      \<or> successful_latencies (results_with_guardrail results) = [] \<longrightarrow>
      (\<exists>a. analyze_results results = Inr a \<and> overhead a = None
         \<and> (successful_latencies (results_without_guardrail results) = [] \<longrightarrow> stats_without a = None)
         \<and> (successful_latencies (results_with_guardrail results) = [] \<longrightarrow> stats_with a = None)))
   \<and> (\<forall>results a. analyze_results results = Inr a \<longrightarrow>
        (\<forall>row \<in> set (detailed a).
           (prompt_times (results_without_guardrail results) (row_prompt row) = [] \<longrightarrow> avg_without row = 0)
         \<and> (prompt_times (results_with_guardrail results) (row_prompt row) = [] \<longrightarrow> avg_with row = 0)))
   \<and> (\<forall>results.
      successful_totals (no_protection_results results) = []
      \<or> successful_totals (guardrail_results results) = []
      \<or> successful_totals (regex_results results) = [] \<longrightarrow>
      (\<exists>a b1 b2 b3. pii_analyze_results results = Inr a \<and> comparison a = None
         \<and> summaries a = [b1, b2, b3]
         \<and> (successful_totals (no_protection_results results) = [] \<longrightarrow> b1 = None)
         \<and> (successful_totals (guardrail_results results) = [] \<longrightarrow> b2 = None)
         \<and> (successful_totals (regex_results results) = [] \<longrightarrow> b3 = None \<and> avg_pii_check a = None)))"
proof (intro conjI allI impI)
  fix results :: benchmark_results
  assume h: "successful_latencies (results_without_guardrail results) = []
      \<or> successful_latencies (results_with_guardrail results) = []"
  from overhead_block_None [OF h] analyze_results_Inr obtain a where a:
    "analyze_results results = Inr a" "overhead a = None"
    "stats_block (successful_latencies (results_without_guardrail results)) = Inr (stats_without a)"
    "stats_block (successful_latencies (results_with_guardrail results)) = Inr (stats_with a)"
    by blast
  have "successful_latencies (results_without_guardrail results) = [] \<longrightarrow> stats_without a = None"
    using a(3) by (auto simp add: stats_block_def)
  moreover have "successful_latencies (results_with_guardrail results) = [] \<longrightarrow> stats_with a = None"
    using a(4) by (auto simp add: stats_block_def)
  ultimately show "\<exists>a. analyze_results results = Inr a \<and> overhead a = None
         \<and> (successful_latencies (results_without_guardrail results) = [] \<longrightarrow> stats_without a = None)
         \<and> (successful_latencies (results_with_guardrail results) = [] \<longrightarrow> stats_with a = None)"
    using a(1,2) by blast
next
  fix results a
  assume "analyze_results results = Inr a"
  then show "\<forall>row \<in> set (detailed a).
           (prompt_times (results_without_guardrail results) (row_prompt row) = [] \<longrightarrow> avg_without row = 0)
         \<and> (prompt_times (results_with_guardrail results) (row_prompt row) = [] \<longrightarrow> avg_with row = 0)"
    by (rule analyze_results_rows)
next
  fix results :: pii_results
  assume h: "successful_totals (no_protection_results results) = []
      \<or> successful_totals (guardrail_results results) = []
      \<or> successful_totals (regex_results results) = []"
  from overhead_comparison_block_None [OF h] pii_analyze_results_Inr obtain a b1 b2 b3 where a:
    "pii_analyze_results results = Inr a" "comparison a = None" "summaries a = [b1, b2, b3]"
    "method_block (''no_protection'', no_protection_results results) = Inr b1"
    "method_block (''guardrail'', guardrail_results results) = Inr b2"
    "method_block (''regex'', regex_results results) = Inr b3"
    "regex_timing_block (regex_results results) = Inr (avg_pii_check a)"
    by blast
  have "successful_totals (no_protection_results results) = [] \<longrightarrow> b1 = None"
    using a(4) method_block_cases [of "no_protection_results results" "''no_protection''"] by auto
  moreover have "successful_totals (guardrail_results results) = [] \<longrightarrow> b2 = None"
    using a(5) method_block_cases [of "guardrail_results results" "''guardrail''"] by auto
  moreover have "successful_totals (regex_results results) = [] \<longrightarrow> b3 = None \<and> avg_pii_check a = None"
    using a(6,7) method_block_cases [of "regex_results results" "''regex''"]
      regex_timing_block_cases [of "regex_results results"] by auto
  ultimately show "\<exists>a b1 b2 b3. pii_analyze_results results = Inr a \<and> comparison a = None
         \<and> summaries a = [b1, b2, b3]
         \<and> (successful_totals (no_protection_results results) = [] \<longrightarrow> b1 = None)
         \<and> (successful_totals (guardrail_results results) = [] \<longrightarrow> b2 = None)
         \<and> (successful_totals (regex_results results) = [] \<longrightarrow> b3 = None \<and> avg_pii_check a = None)"
    using a(1,2,3) by blast
qed

text \<open>
  An instance: every call with the guardrail failed, in both scripts.
\<close>

theorem C6_no_data_witness:
  "(\<exists>a. analyze_results
          \<lparr>results_without_guardrail =
             [\<lparr>prompt = ''p'', with_guardrail = False, latency_ms = 100, input_tokens = None,
               output_tokens = None, blocked = False, error = None\<rparr>],
           results_with_guardrail =
             [\<lparr>prompt = ''p'', with_guardrail = True, latency_ms = 250, input_tokens = None,
               output_tokens = None, blocked = False, error = Some ''boom''\<rparr>]\<rparr> = Inr a
        \<and> overhead a = None \<and> stats_with a = None)
   \<and> (\<exists>a b1 b2 b3. pii_analyze_results
          \<lparr>no_protection_results =
             [\<lparr>p_prompt = ''p'', p_method = ''no_protection'', p_latency_ms = 100, pii_check_ms = 0,
               total_ms = 100, pii_found = [], p_blocked = False, p_error = None\<rparr>],
           guardrail_results =
             [\<lparr>p_prompt = ''p'', p_method = ''guardrail'', p_latency_ms = 250, pii_check_ms = 0,
               total_ms = 250, pii_found = [], p_blocked = False, p_error = Some ''boom''\<rparr>],
           regex_results = []\<rparr> = Inr a
        \<and> comparison a = None \<and> summaries a = [b1, b2, b3] \<and> b2 = None \<and> b3 = None
        \<and> avg_pii_check a = None)"
proof -
  define R where "R =
          \<lparr>results_without_guardrail =
             [\<lparr>prompt = ''p'', with_guardrail = False, latency_ms = 100, input_tokens = None,
               output_tokens = None, blocked = False, error = None\<rparr>],
           results_with_guardrail =
             [\<lparr>prompt = ''p'', with_guardrail = True, latency_ms = 250, input_tokens = None,
               output_tokens = None, blocked = False, error = Some ''boom''\<rparr>]\<rparr>"
  define Q where "Q =
          \<lparr>no_protection_results =
             [\<lparr>p_prompt = ''p'', p_method = ''no_protection'', p_latency_ms = 100, pii_check_ms = 0,
               total_ms = 100, pii_found = [], p_blocked = False, p_error = None\<rparr>],
           guardrail_results =
             [\<lparr>p_prompt = ''p'', p_method = ''guardrail'', p_latency_ms = 250, pii_check_ms = 0,
               total_ms = 250, pii_found = [], p_blocked = False, p_error = Some ''boom''\<rparr>],
           regex_results = []\<rparr>"
  have r: "successful_latencies (results_with_guardrail R) = []"
    by (simp add: R_def successful_latencies_def truthy_def)
  have q: "successful_totals (guardrail_results Q) = []" "successful_totals (regex_results Q) = []"
    by (simp_all add: Q_def successful_totals_def truthy_def)
  note c6 = C6_no_data
  from c6 r have "\<exists>a. analyze_results R = Inr a \<and> overhead a = None \<and> stats_with a = None"
    by blast
  moreover from c6 q have "\<exists>a b1 b2 b3. pii_analyze_results Q = Inr a
        \<and> comparison a = None \<and> summaries a = [b1, b2, b3] \<and> b2 = None \<and> b3 = None
        \<and> avg_pii_check a = None"
    by (elim conjE allE [of _ Q]) auto
  ultimately show ?thesis unfolding R_def Q_def by blast
qed


section \<open>Properties of the invoke operations\<close>

lemma stop_reason_eq:
  "((case sr of None \<Rightarrow> [] | Some r \<Rightarrow> r) = ''guardrail_intervened'') = (sr = Some ''guardrail_intervened'')"
  by (cases sr) auto

lemma invoke_model_call_raises:
  assumes "call_result (client w (model_request p g)) = Inl e"
  shows "fst (invoke_model client p g w) =
           \<lparr>prompt = prompt_label p, with_guardrail = g,
            latency_ms = call_secs (client w (model_request p g)) * 1000,
            input_tokens = None, output_tokens = None,
            blocked = (is_validation e \<and> str_contains ''guardrail'' (lower (exn_text e))),
            error = Some (exn_text e)\<rparr>"
  using assms by (simp add: invoke_model_def Let_def perf_counter_def after_call_def)

lemma invoke_model_read_raises:
  assumes "call_result (client w (model_request p g)) = Inr resp" "read_result resp = Inl e"
  shows "fst (invoke_model client p g w) =
           \<lparr>prompt = prompt_label p, with_guardrail = g,
            latency_ms = (call_secs (client w (model_request p g)) + read_secs resp) * 1000,
            input_tokens = None, output_tokens = None,
            blocked = (is_validation e \<and> str_contains ''guardrail'' (lower (exn_text e))),
            error = Some (exn_text e)\<rparr>"
  using assms by (simp add: invoke_model_def Let_def perf_counter_def after_call_def elapse_def)

lemma invoke_model_returns:
  assumes "call_result (client w (model_request p g)) = Inr resp" "read_result resp = Inr rb"
  shows "fst (invoke_model client p g w) =
           \<lparr>prompt = prompt_label p, with_guardrail = g,
            latency_ms = call_secs (client w (model_request p g)) * 1000,
            input_tokens = (case usage rb of None \<Rightarrow> None | Some u \<Rightarrow> inputTokens u),
            output_tokens = (case usage rb of None \<Rightarrow> None | Some u \<Rightarrow> outputTokens u),
            blocked = (g \<and> stopReason rb = Some ''guardrail_intervened''),
            error = None\<rparr>"
  using assms
  by (simp add: invoke_model_def Let_def perf_counter_def after_call_def elapse_def stop_reason_eq)

lemma invoke_no_protection_call_raises:
  assumes "call_result (client w (pii_request p None None)) = Inl e"
  shows "fst (invoke_no_protection client p w) =
           \<lparr>p_prompt = prompt_label p, p_method = ''no_protection'',
            p_latency_ms = call_secs (client w (pii_request p None None)) * 1000,
            pii_check_ms = 0,
            total_ms = call_secs (client w (pii_request p None None)) * 1000,
            pii_found = [], p_blocked = False, p_error = Some (exn_text e)\<rparr>"
  using assms by (simp add: invoke_no_protection_def Let_def perf_counter_def after_call_def)

lemma invoke_no_protection_read_raises:
  assumes "call_result (client w (pii_request p None None)) = Inr resp" "read_result resp = Inl e"
  shows "fst (invoke_no_protection client p w) =
           \<lparr>p_prompt = prompt_label p, p_method = ''no_protection'',
            p_latency_ms = (call_secs (client w (pii_request p None None)) + read_secs resp) * 1000,
            pii_check_ms = 0,
            total_ms = (call_secs (client w (pii_request p None None)) + read_secs resp) * 1000,
            pii_found = [], p_blocked = False, p_error = Some (exn_text e)\<rparr>"
  using assms by (simp add: invoke_no_protection_def Let_def perf_counter_def after_call_def elapse_def)

lemma invoke_no_protection_returns:
  assumes "call_result (client w (pii_request p None None)) = Inr resp" "read_result resp = Inr rb"
  shows "fst (invoke_no_protection client p w) =
           \<lparr>p_prompt = prompt_label p, p_method = ''no_protection'',
            p_latency_ms = (call_secs (client w (pii_request p None None)) + read_secs resp) * 1000,
            pii_check_ms = 0,
            total_ms = (call_secs (client w (pii_request p None None)) + read_secs resp) * 1000,
            pii_found = [], p_blocked = False, p_error = None\<rparr>"
  using assms by (simp add: invoke_no_protection_def Let_def perf_counter_def after_call_def elapse_def)

lemma invoke_with_guardrail_call_raises:
  assumes "q = pii_request p (Some SIMPLE_PII_GUARDRAIL_ID) (Some SIMPLE_PII_GUARDRAIL_VERSION)"
    "call_result (client w q) = Inl e"
  shows "fst (invoke_with_guardrail client p w) =
           \<lparr>p_prompt = prompt_label p, p_method = ''guardrail'',
            p_latency_ms = call_secs (client w q) * 1000, pii_check_ms = 0,
            total_ms = call_secs (client w q) * 1000, pii_found = [],
            p_blocked = str_contains ''guardrail'' (lower (exn_text e)),
            p_error = Some (exn_text e)\<rparr>"
  using assms by (simp add: invoke_with_guardrail_def Let_def perf_counter_def after_call_def)

lemma invoke_with_guardrail_read_raises:
  assumes "q = pii_request p (Some SIMPLE_PII_GUARDRAIL_ID) (Some SIMPLE_PII_GUARDRAIL_VERSION)"
    "call_result (client w q) = Inr resp" "read_result resp = Inl e"
  shows "fst (invoke_with_guardrail client p w) =
           \<lparr>p_prompt = prompt_label p, p_method = ''guardrail'',
            p_latency_ms = (call_secs (client w q) + read_secs resp) * 1000, pii_check_ms = 0,
            total_ms = (call_secs (client w q) + read_secs resp) * 1000, pii_found = [],
            p_blocked = str_contains ''guardrail'' (lower (exn_text e)),
            p_error = Some (exn_text e)\<rparr>"
  using assms by (simp add: invoke_with_guardrail_def Let_def perf_counter_def after_call_def elapse_def)

lemma invoke_with_guardrail_returns:
  assumes "q = pii_request p (Some SIMPLE_PII_GUARDRAIL_ID) (Some SIMPLE_PII_GUARDRAIL_VERSION)"
    "call_result (client w q) = Inr resp" "read_result resp = Inr rb"
  shows "fst (invoke_with_guardrail client p w) =
           \<lparr>p_prompt = prompt_label p, p_method = ''guardrail'',
            p_latency_ms = call_secs (client w q) * 1000, pii_check_ms = 0,
            total_ms = call_secs (client w q) * 1000, pii_found = [],
            p_blocked = (stopReason rb = Some ''guardrail_intervened''),
            p_error = None\<rparr>"
  using assms by (simp add: invoke_with_guardrail_def Let_def perf_counter_def after_call_def elapse_def)

lemma detect_pii_regex_eq:
  "detect_pii_regex cost t w = ((pii_types_found t, cost w t * 1000), elapse (cost w t) w)"
  by (simp add: detect_pii_regex_def Let_def perf_counter_def elapse_def)

text \<open>The request that the local filter sends, and the state of the world when it is sent.\<close>

lemma invoke_with_regex_call_raises:
  assumes "wa = elapse (cost w p) w"
    "q = pii_request (if pii_types_found p \<noteq> [] then anonymize_pii_regex p else p) None None"
    "call_result (client wa q) = Inl e"
  shows "fst (invoke_with_regex cost client p w) =
           \<lparr>p_prompt = prompt_label p, p_method = ''regex'',
            p_latency_ms = call_secs (client wa q) * 1000,
            pii_check_ms = cost w p * 1000,
            total_ms = call_secs (client wa q) * 1000 + cost w p * 1000,
            pii_found = pii_types_found p, p_blocked = False, p_error = Some (exn_text e)\<rparr>"
  using assms
  by (simp add: invoke_with_regex_def detect_pii_regex_eq Let_def perf_counter_def after_call_def elapse_def)

lemma invoke_with_regex_read_raises:
  assumes "wa = elapse (cost w p) w"
    "q = pii_request (if pii_types_found p \<noteq> [] then anonymize_pii_regex p else p) None None"
    "call_result (client wa q) = Inr resp" "read_result resp = Inl e"
  shows "fst (invoke_with_regex cost client p w) =
           \<lparr>p_prompt = prompt_label p, p_method = ''regex'',
            p_latency_ms = (call_secs (client wa q) + read_secs resp) * 1000,
            pii_check_ms = cost w p * 1000,
            total_ms = (call_secs (client wa q) + read_secs resp) * 1000 + cost w p * 1000,
            pii_found = pii_types_found p, p_blocked = False, p_error = Some (exn_text e)\<rparr>"
  using assms
  by (simp add: invoke_with_regex_def detect_pii_regex_eq Let_def perf_counter_def after_call_def elapse_def)

lemma invoke_with_regex_returns:
  assumes "wa = elapse (cost w p) w"
    "q = pii_request (if pii_types_found p \<noteq> [] then anonymize_pii_regex p else p) None None"
    "call_result (client wa q) = Inr resp" "read_result resp = Inr rb"
    "w2 = elapse (read_secs resp) (after_call (call_secs (client wa q)) wa)"
  shows "fst (invoke_with_regex cost client p w) =
           \<lparr>p_prompt = prompt_label p, p_method = ''regex'',
            p_latency_ms = call_secs (client wa q) * 1000,
            pii_check_ms = cost w p * 1000 + cost w2 (output_text rb) * 1000,
            total_ms = call_secs (client wa q) * 1000
                       + (cost w p * 1000 + cost w2 (output_text rb) * 1000),
            pii_found = remdups (pii_types_found p @ pii_types_found (output_text rb)),
            p_blocked = False, p_error = None\<rparr>"
  using assms
  by (simp add: invoke_with_regex_def detect_pii_regex_eq Let_def perf_counter_def after_call_def elapse_def)


subsection \<open>What the latency covers\<close>

lemma invoke_model_latency:
  "latency_ms (fst (invoke_model client p g w)) = measured_span False (client w (model_request p g)) * 1000"
proof (cases "call_result (client w (model_request p g))")
  case (Inl e)
  then show ?thesis by (simp add: invoke_model_call_raises measured_span_def)
next
  case (Inr resp)
  then show ?thesis
    by (cases "read_result resp")
       (simp_all add: invoke_model_read_raises invoke_model_returns measured_span_def)
qed

lemma invoke_no_protection_latency:
  "p_latency_ms (fst (invoke_no_protection client p w))
     = measured_span True (client w (pii_request p None None)) * 1000"
proof (cases "call_result (client w (pii_request p None None))")
  case (Inl e)
  then show ?thesis by (simp add: invoke_no_protection_call_raises measured_span_def)
next
  case (Inr resp)
  then show ?thesis
    by (cases "read_result resp")
       (simp_all add: invoke_no_protection_read_raises invoke_no_protection_returns measured_span_def)
qed

lemma invoke_with_guardrail_latency:
  "p_latency_ms (fst (invoke_with_guardrail client p w))
     = measured_span False
         (client w (pii_request p (Some SIMPLE_PII_GUARDRAIL_ID) (Some SIMPLE_PII_GUARDRAIL_VERSION))) * 1000"
proof (cases "call_result
    (client w (pii_request p (Some SIMPLE_PII_GUARDRAIL_ID) (Some SIMPLE_PII_GUARDRAIL_VERSION)))")
  case (Inl e)
  then show ?thesis
    by (simp add: invoke_with_guardrail_call_raises [OF refl] measured_span_def)
next
  case (Inr resp)
  then show ?thesis
    by (cases "read_result resp")
       (simp_all add: invoke_with_guardrail_read_raises [OF refl] invoke_with_guardrail_returns [OF refl]
          measured_span_def)
qed

lemma invoke_with_regex_latency:
  "p_latency_ms (fst (invoke_with_regex cost client p w))
     = measured_span False
         (client (elapse (cost w p) w)
            (pii_request (if pii_types_found p \<noteq> [] then anonymize_pii_regex p else p) None None)) * 1000"
proof (cases "call_result (client (elapse (cost w p) w)
            (pii_request (if pii_types_found p \<noteq> [] then anonymize_pii_regex p else p) None None))")
  case (Inl e)
  then show ?thesis
    by (simp add: invoke_with_regex_call_raises [OF refl refl] measured_span_def)
next
  case (Inr resp)
  then show ?thesis
    by (cases "read_result resp")
       (simp_all add: invoke_with_regex_read_raises [OF refl refl]
          invoke_with_regex_returns [OF refl refl _ _ refl] measured_span_def)
qed

text \<open>
  Claim C1, as stated, fails for \<open>invoke_model\<close>: the call takes 100 ms and reading the
  body another 10 ms, and the latency recorded is 100 ms, not 110 ms.
\<close>

theorem C1_counterexample:
  "latency_ms (fst (invoke_model
       (steady_client (answering (1 / 10) (1 / 100) \<lparr>output_field = None, stopReason = None, usage = None\<rparr>))
       ''Hi'' True start_world)) = 100
   \<and> measured_span True (answering (1 / 10) (1 / 100) \<lparr>output_field = None, stopReason = None, usage = None\<rparr>)
        * 1000 = 110"
  by (simp add: invoke_model_latency measured_span_def steady_client_def answering_def)

text \<open>
  Claim C1, amended. In every variant the timer is started right before the call is
  issued, and when the call or the reading of its body fails it is stopped in the
  handler, after the failure. On success only \<open>invoke_no_protection\<close> stops it after the
  body has been read and parsed; \<open>invoke_model\<close>, \<open>invoke_with_guardrail\<close> and
  \<open>invoke_with_regex\<close> stop it when the call returns, before the body is read, so their
  latency leaves the reading and parsing of the body out.
\<close>

theorem C1_latency_span:
  "latency_ms (fst (invoke_model client p g w))
     = measured_span False (client w (model_request p g)) * 1000
   \<and> p_latency_ms (fst (invoke_no_protection client p w))
     = measured_span True (client w (pii_request p None None)) * 1000
   \<and> p_latency_ms (fst (invoke_with_guardrail client p w))
     = measured_span False
         (client w (pii_request p (Some SIMPLE_PII_GUARDRAIL_ID) (Some SIMPLE_PII_GUARDRAIL_VERSION))) * 1000
   \<and> p_latency_ms (fst (invoke_with_regex cost client p w))
     = measured_span False
         (client (snd (detect_pii_regex cost p w))
            (pii_request (if fst (fst (detect_pii_regex cost p w)) \<noteq> [] then anonymize_pii_regex p else p)
               None None)) * 1000"
  by (simp only: invoke_model_latency invoke_no_protection_latency invoke_with_guardrail_latency
        invoke_with_regex_latency detect_pii_regex_eq fst_conv snd_conv simp_thms)

text \<open>
  An instance: a call of 100 ms whose body takes 10 ms to read, in all four operations.
\<close>

theorem C1_latency_span_witness:
  "latency_ms (fst (invoke_model
       (steady_client (answering (1 / 10) (1 / 100) \<lparr>output_field = None, stopReason = None, usage = None\<rparr>))
       ''Hi'' False start_world)) = 100
   \<and> p_latency_ms (fst (invoke_no_protection
       (steady_client (answering (1 / 10) (1 / 100) \<lparr>output_field = None, stopReason = None, usage = None\<rparr>))
       ''Hi'' start_world)) = 110
   \<and> p_latency_ms (fst (invoke_with_guardrail
       (steady_client (answering (1 / 10) (1 / 100) \<lparr>output_field = None, stopReason = None, usage = None\<rparr>))
       ''Hi'' start_world)) = 100
   \<and> p_latency_ms (fst (invoke_with_regex (steady_cost (1 / 1000))
       (steady_client (answering (1 / 10) (1 / 100) \<lparr>output_field = None, stopReason = None, usage = None\<rparr>))
       ''Hi'' start_world)) = 100"
  using C1_latency_span [of
      "steady_client (answering (1 / 10) (1 / 100) \<lparr>output_field = None, stopReason = None, usage = None\<rparr>)"
      "''Hi''" False start_world "steady_cost (1 / 1000)"]
  by (simp add: measured_span_def steady_client_def answering_def)


subsection \<open>The stop reason of a successful response\<close>

lemma try_succeeds_iff:
  "try_succeeds out rb \<longleftrightarrow> (\<exists>resp. call_result out = Inr resp \<and> read_result resp = Inr rb)"
  by (cases "call_result out") (simp_all add: try_succeeds_def)

lemma try_raises_iff:
  "try_raises out e \<longleftrightarrow>
     call_result out = Inl e \<or> (\<exists>resp. call_result out = Inr resp \<and> read_result resp = Inl e)"
  by (cases "call_result out") (auto simp add: try_raises_def)

lemma invoke_no_protection_not_blocked: "\<not> p_blocked (fst (invoke_no_protection client p w))"
proof (cases "call_result (client w (pii_request p None None))")
  case (Inl e)
  then show ?thesis by (simp add: invoke_no_protection_call_raises)
next
  case (Inr resp)
  then show ?thesis
    by (cases "read_result resp")
       (simp_all add: invoke_no_protection_read_raises invoke_no_protection_returns)
qed

lemma invoke_with_regex_not_blocked: "\<not> p_blocked (fst (invoke_with_regex cost client p w))"
proof (cases "call_result (client (elapse (cost w p) w)
            (pii_request (if pii_types_found p \<noteq> [] then anonymize_pii_regex p else p) None None))")
  case (Inl e)
  then show ?thesis by (simp add: invoke_with_regex_call_raises [OF refl refl])
next
  case (Inr resp)
  then show ?thesis
    by (cases "read_result resp")
       (simp_all add: invoke_with_regex_read_raises [OF refl refl]
          invoke_with_regex_returns [OF refl refl _ _ refl])
qed

text \<open>
  Claim C5, as stated, fails for the variants without a guardrail: the response has the
  stop reason \<open>guardrail_intervened\<close>, and the call of \<open>invoke_model\<close> without the
  guardrail records \<open>blocked = False\<close>.
\<close>

theorem C5_counterexample:
  "try_succeeds
     (answering 1 0 \<lparr>output_field = None, stopReason = Some ''guardrail_intervened'', usage = None\<rparr>)
     \<lparr>output_field = None, stopReason = Some ''guardrail_intervened'', usage = None\<rparr>
   \<and> \<not> blocked (fst (invoke_model
         (steady_client
            (answering 1 0 \<lparr>output_field = None, stopReason = Some ''guardrail_intervened'', usage = None\<rparr>))
         ''Hi'' False start_world))"
  by (simp add: try_succeeds_def answering_def steady_client_def
        invoke_model_returns [where resp = "\<lparr>read_secs = 0, read_result = Inr \<lparr>output_field = None, stopReason = Some ''guardrail_intervened'', usage = None\<rparr>\<rparr>"])

text \<open>
  Claim C5, amended. In the variants that attach a guardrail (\<open>invoke_model\<close> with
  \<open>use_guardrail\<close>, and \<open>invoke_with_guardrail\<close>), a successful response whose stop reason
  is \<open>guardrail_intervened\<close> gives a result with \<open>blocked = True\<close>, whatever else the
  response holds. The variants without a guardrail do not look at the stop reason:
  \<open>invoke_model\<close> without the guardrail gives \<open>blocked = False\<close> on every successful
  response, and \<open>invoke_no_protection\<close> and \<open>invoke_with_regex\<close> give \<open>blocked = False\<close>
  always.
\<close>

theorem C5_blocked_on_intervention:
  "(try_succeeds (client w (model_request p True)) rb
      \<and> stopReason rb = Some ''guardrail_intervened'' \<longrightarrow>
      blocked (fst (invoke_model client p True w)))
   \<and> (try_succeeds
        (client w (pii_request p (Some SIMPLE_PII_GUARDRAIL_ID) (Some SIMPLE_PII_GUARDRAIL_VERSION))) rb
      \<and> stopReason rb = Some ''guardrail_intervened'' \<longrightarrow>
      p_blocked (fst (invoke_with_guardrail client p w)))
   \<and> (try_succeeds (client w (model_request p False)) rb \<longrightarrow>
      \<not> blocked (fst (invoke_model client p False w)))
   \<and> \<not> p_blocked (fst (invoke_no_protection client p w))
   \<and> \<not> p_blocked (fst (invoke_with_regex cost client p w))"
  by (auto simp add: try_succeeds_iff invoke_model_returns invoke_with_guardrail_returns [OF refl]
        invoke_no_protection_not_blocked invoke_with_regex_not_blocked)

text \<open>
  An instance: the response carries both a generated text and the stop reason
  \<open>guardrail_intervened\<close>.
\<close>

theorem C5_blocked_on_intervention_witness:
  "blocked (fst (invoke_model
       (steady_client (answering 1 0
          \<lparr>output_field = Some \<lparr>message_field = Some \<lparr>content_field = Some [\<lparr>block_text = Some ''Sorry''\<rparr>]\<rparr>\<rparr>,
           stopReason = Some ''guardrail_intervened'', usage = None\<rparr>))
       ''Hi'' True start_world))
   \<and> p_blocked (fst (invoke_with_guardrail
       (steady_client (answering 1 0
          \<lparr>output_field = Some \<lparr>message_field = Some \<lparr>content_field = Some [\<lparr>block_text = Some ''Sorry''\<rparr>]\<rparr>\<rparr>,
           stopReason = Some ''guardrail_intervened'', usage = None\<rparr>))
       ''Hi'' start_world))"
  using C5_blocked_on_intervention [of
      "steady_client (answering 1 0
          \<lparr>output_field = Some \<lparr>message_field = Some \<lparr>content_field = Some [\<lparr>block_text = Some ''Sorry''\<rparr>]\<rparr>\<rparr>,
           stopReason = Some ''guardrail_intervened'', usage = None\<rparr>)"
      start_world "''Hi''"
      "\<lparr>output_field = Some \<lparr>message_field = Some \<lparr>content_field = Some [\<lparr>block_text = Some ''Sorry''\<rparr>]\<rparr>\<rparr>,
           stopReason = Some ''guardrail_intervened'', usage = None\<rparr>"]
  by (simp add: try_succeeds_def steady_client_def answering_def)

subsection \<open>Exceptions\<close>

lemma lower_sample: "str_contains ''guardrail'' (lower ''Blocked by Guardrail'')"
  by code_simp

text \<open>
  Claim C7, as stated, fails for \<open>invoke_model\<close>: the exception is not a
  \<open>ValidationException\<close>, its text contains \<open>guardrail\<close> when lowered, and the result
  has \<open>blocked = False\<close>.
\<close>

theorem C7_counterexample:
  "str_contains ''guardrail'' (lower ''Guardrail timed out'')
   \<and> try_raises (raising 1 \<lparr>is_validation = False, exn_text = ''Guardrail timed out''\<rparr>)
        \<lparr>is_validation = False, exn_text = ''Guardrail timed out''\<rparr>
   \<and> error (fst (invoke_model
         (steady_client (raising 1 \<lparr>is_validation = False, exn_text = ''Guardrail timed out''\<rparr>))
         ''Hi'' True start_world)) = Some ''Guardrail timed out''
   \<and> \<not> blocked (fst (invoke_model
         (steady_client (raising 1 \<lparr>is_validation = False, exn_text = ''Guardrail timed out''\<rparr>))
         ''Hi'' True start_world))"
proof -
  have l: "str_contains ''guardrail'' (lower ''Guardrail timed out'')" by code_simp
  show ?thesis
    by (simp add: l try_raises_def raising_def steady_client_def
          invoke_model_call_raises [where e = "\<lparr>is_validation = False, exn_text = ''Guardrail timed out''\<rparr>"])
qed

text \<open>
  Claim C7, amended. In every variant and for every exception type, when the remote call
  or the reading of its body fails with an exception, the text of the exception is
  recorded in the \<open>error\<close> field of the result. The \<open>blocked\<close> field is set to whether that
  text, lowered, contains \<open>guardrail\<close> by \<open>invoke_model\<close> when the exception is a
  \<open>ValidationException\<close>, and by \<open>invoke_with_guardrail\<close> for every exception;
  \<open>invoke_model\<close> leaves it false for every other exception, and \<open>invoke_no_protection\<close>
  and \<open>invoke_with_regex\<close> leave it false always.
\<close>

theorem C7_exception_capture:
  "(try_raises (client w (model_request p g)) e \<longrightarrow>
      error (fst (invoke_model client p g w)) = Some (exn_text e)
      \<and> blocked (fst (invoke_model client p g w))
          = (is_validation e \<and> str_contains ''guardrail'' (lower (exn_text e))))
   \<and> (try_raises
        (client w (pii_request p (Some SIMPLE_PII_GUARDRAIL_ID) (Some SIMPLE_PII_GUARDRAIL_VERSION))) e \<longrightarrow>
      p_error (fst (invoke_with_guardrail client p w)) = Some (exn_text e)
      \<and> p_blocked (fst (invoke_with_guardrail client p w))
          = str_contains ''guardrail'' (lower (exn_text e)))
   \<and> (try_raises (client w (pii_request p None None)) e \<longrightarrow>
      p_error (fst (invoke_no_protection client p w)) = Some (exn_text e)
      \<and> \<not> p_blocked (fst (invoke_no_protection client p w)))
   \<and> (try_raises
        (client (snd (detect_pii_regex cost p w))
           (pii_request (if fst (fst (detect_pii_regex cost p w)) \<noteq> [] then anonymize_pii_regex p else p)
              None None)) e \<longrightarrow>
      p_error (fst (invoke_with_regex cost client p w)) = Some (exn_text e)
      \<and> \<not> p_blocked (fst (invoke_with_regex cost client p w)))"
proof (intro conjI impI)
  assume "try_raises (client w (model_request p g)) e"
  then show "error (fst (invoke_model client p g w)) = Some (exn_text e)"
    and "blocked (fst (invoke_model client p g w))
          = (is_validation e \<and> str_contains ''guardrail'' (lower (exn_text e)))"
    by (auto simp add: try_raises_iff invoke_model_call_raises invoke_model_read_raises)
next
  assume "try_raises
        (client w (pii_request p (Some SIMPLE_PII_GUARDRAIL_ID) (Some SIMPLE_PII_GUARDRAIL_VERSION))) e"
  then show "p_error (fst (invoke_with_guardrail client p w)) = Some (exn_text e)"
    and "p_blocked (fst (invoke_with_guardrail client p w))
          = str_contains ''guardrail'' (lower (exn_text e))"
    by (auto simp add: try_raises_iff invoke_with_guardrail_call_raises [OF refl]
          invoke_with_guardrail_read_raises [OF refl])
next
  assume "try_raises (client w (pii_request p None None)) e"
  then show "p_error (fst (invoke_no_protection client p w)) = Some (exn_text e)"
    by (auto simp add: try_raises_iff invoke_no_protection_call_raises invoke_no_protection_read_raises)
next
  show "\<not> p_blocked (fst (invoke_no_protection client p w))"
    by (rule invoke_no_protection_not_blocked)
next
  assume "try_raises
        (client (snd (detect_pii_regex cost p w))
           (pii_request (if fst (fst (detect_pii_regex cost p w)) \<noteq> [] then anonymize_pii_regex p else p)
              None None)) e"
  then show "p_error (fst (invoke_with_regex cost client p w)) = Some (exn_text e)"
    by (auto simp add: try_raises_iff detect_pii_regex_eq invoke_with_regex_call_raises [OF refl refl]
          invoke_with_regex_read_raises [OF refl refl])
next
  show "\<not> p_blocked (fst (invoke_with_regex cost client p w))"
    by (rule invoke_with_regex_not_blocked)
qed

text \<open>
  An instance: a \<open>ValidationException\<close> that names the guardrail, in all four operations.
\<close>

theorem C7_exception_capture_witness:
  "blocked (fst (invoke_model
       (steady_client (raising 1 \<lparr>is_validation = True, exn_text = ''Blocked by Guardrail''\<rparr>))
       ''Hi'' True start_world))
   \<and> error (fst (invoke_model
       (steady_client (raising 1 \<lparr>is_validation = True, exn_text = ''Blocked by Guardrail''\<rparr>))
       ''Hi'' True start_world)) = Some ''Blocked by Guardrail''
   \<and> p_blocked (fst (invoke_with_guardrail
       (steady_client (raising 1 \<lparr>is_validation = True, exn_text = ''Blocked by Guardrail''\<rparr>))
       ''Hi'' start_world))
   \<and> p_error (fst (invoke_no_protection
       (steady_client (raising 1 \<lparr>is_validation = True, exn_text = ''Blocked by Guardrail''\<rparr>))
       ''Hi'' start_world)) = Some ''Blocked by Guardrail''
   \<and> p_error (fst (invoke_with_regex (steady_cost 0)
       (steady_client (raising 1 \<lparr>is_validation = True, exn_text = ''Blocked by Guardrail''\<rparr>))
       ''Hi'' start_world)) = Some ''Blocked by Guardrail''"
  using C7_exception_capture [of
      "steady_client (raising 1 \<lparr>is_validation = True, exn_text = ''Blocked by Guardrail''\<rparr>)"
      start_world "''Hi''" True "\<lparr>is_validation = True, exn_text = ''Blocked by Guardrail''\<rparr>"
      "steady_cost 0"]
    lower_sample
  by (simp add: try_raises_def steady_client_def raising_def)


subsection \<open>The total time of a result\<close>

lemma invoke_no_protection_total:
  "total_ms (fst (invoke_no_protection client p w)) = p_latency_ms (fst (invoke_no_protection client p w))
   \<and> pii_check_ms (fst (invoke_no_protection client p w)) = 0"
proof (cases "call_result (client w (pii_request p None None))")
  case (Inl e)
  then show ?thesis by (simp add: invoke_no_protection_call_raises)
next
  case (Inr resp)
  then show ?thesis
    by (cases "read_result resp")
       (simp_all add: invoke_no_protection_read_raises invoke_no_protection_returns)
qed

lemma invoke_with_guardrail_total:
  "total_ms (fst (invoke_with_guardrail client p w)) = p_latency_ms (fst (invoke_with_guardrail client p w))
   \<and> pii_check_ms (fst (invoke_with_guardrail client p w)) = 0"
proof (cases "call_result
    (client w (pii_request p (Some SIMPLE_PII_GUARDRAIL_ID) (Some SIMPLE_PII_GUARDRAIL_VERSION)))")
  case (Inl e)
  then show ?thesis by (simp add: invoke_with_guardrail_call_raises [OF refl])
next
  case (Inr resp)
  then show ?thesis
    by (cases "read_result resp")
       (simp_all add: invoke_with_guardrail_read_raises [OF refl] invoke_with_guardrail_returns [OF refl])
qed

lemma invoke_with_regex_total:
  "total_ms (fst (invoke_with_regex cost client p w))
     = p_latency_ms (fst (invoke_with_regex cost client p w))
       + pii_check_ms (fst (invoke_with_regex cost client p w))
   \<and> ((\<forall>w t. 0 \<le> cost w t) \<longrightarrow> 0 \<le> pii_check_ms (fst (invoke_with_regex cost client p w)))"
proof (cases "call_result (client (elapse (cost w p) w)
            (pii_request (if pii_types_found p \<noteq> [] then anonymize_pii_regex p else p) None None))")
  case (Inl e)
  then show ?thesis by (simp add: invoke_with_regex_call_raises [OF refl refl])
next
  case (Inr resp)
  then show ?thesis
    by (cases "read_result resp")
       (simp_all add: invoke_with_regex_read_raises [OF refl refl]
          invoke_with_regex_returns [OF refl refl _ _ refl])
qed

lemma measured_span_nonneg:
  assumes "monotonic cost client"
  shows "0 \<le> measured_span b (client w q)"
proof -
  from assms have c: "0 \<le> call_secs (client w q)"
    and r: "case call_result (client w q) of Inl e \<Rightarrow> True | Inr resp \<Rightarrow> 0 \<le> read_secs resp"
    by (simp_all add: monotonic_def)
  show ?thesis
  proof (cases "call_result (client w q)")
    case (Inl e)
    with c show ?thesis by (simp add: measured_span_def)
  next
    case (Inr resp)
    with c r show ?thesis by (cases "read_result resp") (simp_all add: measured_span_def)
  qed
qed

text \<open>
  Claim C9. Every result of an invoke operation of the PII comparison has
  \<open>total_ms = latency_ms + pii_check_ms\<close>, in the success branch and in the error branch
  alike, with \<open>pii_check_ms = 0\<close> in the two variants that do no local pattern matching;
  hence, the clock being monotonic, \<open>total_ms \<ge> latency_ms \<ge> 0\<close>.
\<close>

theorem C9_total_is_sum:
  "(total_ms (fst (invoke_no_protection client p w))
      = p_latency_ms (fst (invoke_no_protection client p w))
        + pii_check_ms (fst (invoke_no_protection client p w))
    \<and> pii_check_ms (fst (invoke_no_protection client p w)) = 0)
   \<and> (total_ms (fst (invoke_with_guardrail client p w))
      = p_latency_ms (fst (invoke_with_guardrail client p w))
        + pii_check_ms (fst (invoke_with_guardrail client p w))
    \<and> pii_check_ms (fst (invoke_with_guardrail client p w)) = 0)
   \<and> total_ms (fst (invoke_with_regex cost client p w))
      = p_latency_ms (fst (invoke_with_regex cost client p w))
        + pii_check_ms (fst (invoke_with_regex cost client p w))
   \<and> (monotonic cost client \<longrightarrow>
        0 \<le> p_latency_ms (fst (invoke_no_protection client p w))
        \<and> p_latency_ms (fst (invoke_no_protection client p w))
            \<le> total_ms (fst (invoke_no_protection client p w))
        \<and> 0 \<le> p_latency_ms (fst (invoke_with_guardrail client p w))
        \<and> p_latency_ms (fst (invoke_with_guardrail client p w))
            \<le> total_ms (fst (invoke_with_guardrail client p w))
        \<and> 0 \<le> p_latency_ms (fst (invoke_with_regex cost client p w))
        \<and> p_latency_ms (fst (invoke_with_regex cost client p w))
            \<le> total_ms (fst (invoke_with_regex cost client p w)))"
proof -
  have mono: "0 \<le> p_latency_ms (fst (invoke_no_protection client p w))
        \<and> 0 \<le> p_latency_ms (fst (invoke_with_guardrail client p w))
        \<and> 0 \<le> p_latency_ms (fst (invoke_with_regex cost client p w))
        \<and> 0 \<le> pii_check_ms (fst (invoke_with_regex cost client p w))"
    if m: "monotonic cost client"
  proof -
    from m have "\<forall>w t. 0 \<le> cost w t" by (simp add: monotonic_def)
    with invoke_with_regex_total [of cost client p w]
    have "0 \<le> pii_check_ms (fst (invoke_with_regex cost client p w))" by blast
    then show ?thesis
      by (simp add: invoke_no_protection_latency invoke_with_guardrail_latency
            invoke_with_regex_latency measured_span_nonneg [OF m])
  qed
  show ?thesis
    using invoke_no_protection_total [of client p w] invoke_with_guardrail_total [of client p w]
      invoke_with_regex_total [of cost client p w] mono
    by auto
qed

text \<open>
  An instance: a call of 100 ms, a body read in 10 ms and pattern matching passes of
  1 ms each.
\<close>

theorem C9_total_is_sum_witness:
  "monotonic (steady_cost (1 / 1000))
     (steady_client (answering (1 / 10) (1 / 100) \<lparr>output_field = None, stopReason = None, usage = None\<rparr>))
   \<and> total_ms (fst (invoke_with_regex (steady_cost (1 / 1000))
       (steady_client (answering (1 / 10) (1 / 100) \<lparr>output_field = None, stopReason = None, usage = None\<rparr>))
       ''Hi'' start_world))
     = p_latency_ms (fst (invoke_with_regex (steady_cost (1 / 1000))
       (steady_client (answering (1 / 10) (1 / 100) \<lparr>output_field = None, stopReason = None, usage = None\<rparr>))
       ''Hi'' start_world))
       + pii_check_ms (fst (invoke_with_regex (steady_cost (1 / 1000))
       (steady_client (answering (1 / 10) (1 / 100) \<lparr>output_field = None, stopReason = None, usage = None\<rparr>))
       ''Hi'' start_world))
   \<and> 0 \<le> p_latency_ms (fst (invoke_with_regex (steady_cost (1 / 1000))
       (steady_client (answering (1 / 10) (1 / 100) \<lparr>output_field = None, stopReason = None, usage = None\<rparr>))
       ''Hi'' start_world))
   \<and> p_latency_ms (fst (invoke_with_regex (steady_cost (1 / 1000))
       (steady_client (answering (1 / 10) (1 / 100) \<lparr>output_field = None, stopReason = None, usage = None\<rparr>))
       ''Hi'' start_world))
     \<le> total_ms (fst (invoke_with_regex (steady_cost (1 / 1000))
       (steady_client (answering (1 / 10) (1 / 100) \<lparr>output_field = None, stopReason = None, usage = None\<rparr>))
       ''Hi'' start_world))
   \<and> total_ms (fst (invoke_no_protection
       (steady_client (answering (1 / 10) (1 / 100) \<lparr>output_field = None, stopReason = None, usage = None\<rparr>))
       ''Hi'' start_world)) = 110"
proof -
  have m: "monotonic (steady_cost (1 / 1000))
     (steady_client (answering (1 / 10) (1 / 100) \<lparr>output_field = None, stopReason = None, usage = None\<rparr>))"
    by (simp add: monotonic_def steady_cost_def steady_client_def answering_def)
  have l: "p_latency_ms (fst (invoke_no_protection
       (steady_client (answering (1 / 10) (1 / 100) \<lparr>output_field = None, stopReason = None, usage = None\<rparr>))
       ''Hi'' start_world)) = 110"
    by (simp add: invoke_no_protection_latency measured_span_def steady_client_def answering_def)
  show ?thesis
    using m l C9_total_is_sum [of
      "steady_client (answering (1 / 10) (1 / 100) \<lparr>output_field = None, stopReason = None, usage = None\<rparr>)"
      "''Hi''" start_world "steady_cost (1 / 1000)"]
    by simp
qed


section \<open>Properties of the local PII detector\<close>

lemma sample_types_found:
  "pii_types_found ''My email is a@b.com, call 555-123-4567'' = [''email'', ''phone'']"
  by code_simp

lemma sample_anonymized:
  "anonymize_pii_regex ''My email is a@b.com, call 555-123-4567'' = ''My email is [EMAIL], call [PHONE]''"
  by code_simp

lemma sample_clean:
  "\<not> str_contains ''a@b.com'' ''My email is [EMAIL], call [PHONE]''"
  "\<not> str_contains ''555-123-4567'' ''My email is [EMAIL], call [PHONE]''"
  by code_simp+

text \<open>
  Claim C8. On the text \<open>My email is a@b.com, call 555-123-4567\<close> the detector finds
  exactly the types email and phone, and anonymising it gives a text that contains
  neither the address nor the number; the placeholders are substituted in the fixed
  order email, phone, SSN, card.
\<close>

theorem C8_detect_and_anonymize:
  "fst (fst (detect_pii_regex cost ''My email is a@b.com, call 555-123-4567'' w)) = [''email'', ''phone'']
   \<and> set (pii_types_found ''My email is a@b.com, call 555-123-4567'') = {''email'', ''phone''}
   \<and> anonymize_pii_regex ''My email is a@b.com, call 555-123-4567'' = ''My email is [EMAIL], call [PHONE]''
   \<and> \<not> str_contains ''a@b.com'' (anonymize_pii_regex ''My email is a@b.com, call 555-123-4567'')
   \<and> \<not> str_contains ''555-123-4567'' (anonymize_pii_regex ''My email is a@b.com, call 555-123-4567'')
   \<and> anonymize_pii_regex t
       = re_sub credit_card_pattern ''[CARD]''
           (re_sub ssn_pattern ''[SSN]''
              (re_sub phone_pattern ''[PHONE]''
                 (re_sub email_pattern ''[EMAIL]'' t)))"
proof (intro conjI)
  show "fst (fst (detect_pii_regex cost ''My email is a@b.com, call 555-123-4567'' w)) = [''email'', ''phone'']"
    by (simp only: detect_pii_regex_eq fst_conv sample_types_found)
  show "set (pii_types_found ''My email is a@b.com, call 555-123-4567'') = {''email'', ''phone''}"
    by (simp only: sample_types_found list.set)
  show "anonymize_pii_regex ''My email is a@b.com, call 555-123-4567'' = ''My email is [EMAIL], call [PHONE]''"
    by (rule sample_anonymized)
  show "\<not> str_contains ''a@b.com'' (anonymize_pii_regex ''My email is a@b.com, call 555-123-4567'')"
    by (simp only: sample_anonymized sample_clean not_False_eq_True)
  show "\<not> str_contains ''555-123-4567'' (anonymize_pii_regex ''My email is a@b.com, call 555-123-4567'')"
    by (simp only: sample_anonymized sample_clean not_False_eq_True)
  show "anonymize_pii_regex t
       = re_sub credit_card_pattern ''[CARD]''
           (re_sub ssn_pattern ''[SSN]''
              (re_sub phone_pattern ''[PHONE]''
                 (re_sub email_pattern ''[EMAIL]'' t)))"
    by (simp add: anonymize_pii_regex_def Let_def)
qed


section \<open>Properties of the benchmark runs\<close>

lemma run_iteration_eq:
  "run_iteration client p (rs, w) =
     (\<lparr>results_without_guardrail =
         results_without_guardrail rs @ [fst (invoke_model client p False w)],
       results_with_guardrail =
         results_with_guardrail rs
         @ [fst (invoke_model client p True (snd (invoke_model client p False w)))]\<rparr>,
      snd (invoke_model client p True (snd (invoke_model client p False w))))"
  by (simp add: run_iteration_def split_beta Let_def)

lemma run_iteration_lengths:
  "length (results_without_guardrail (fst (run_iteration client p st)))
     = Suc (length (results_without_guardrail (fst st)))
   \<and> length (results_with_guardrail (fst (run_iteration client p st)))
     = Suc (length (results_with_guardrail (fst st)))"
  by (cases st) (simp add: run_iteration_eq)

lemma inner_loop_lengths:
  "length (results_without_guardrail (fst (fold (\<lambda>i. run_iteration client p) js st)))
     = length (results_without_guardrail (fst st)) + length js
   \<and> length (results_with_guardrail (fst (fold (\<lambda>i. run_iteration client p) js st)))
     = length (results_with_guardrail (fst st)) + length js"
  by (induction js arbitrary: st) (simp_all add: run_iteration_lengths)

lemma outer_loop_lengths:
  "length (results_without_guardrail
       (fst (fold (\<lambda>p. fold (\<lambda>i. run_iteration client p) js) ps st)))
     = length (results_without_guardrail (fst st)) + length ps * length js
   \<and> length (results_with_guardrail
       (fst (fold (\<lambda>p. fold (\<lambda>i. run_iteration client p) js) ps st)))
     = length (results_with_guardrail (fst st)) + length ps * length js"
  by (induction ps arbitrary: st) (simp_all add: inner_loop_lengths)

text \<open>
  The runner of \<open>benchmark.py\<close> records one result per variant for every prompt and every
  iteration, whatever the calls do; the warm-up calls are not recorded.
\<close>

lemma run_benchmark_lengths:
  "length (results_without_guardrail (fst (run_benchmark client prompts iterations w)))
     = length prompts * nat iterations
   \<and> length (results_with_guardrail (fst (run_benchmark client prompts iterations w)))
     = length prompts * nat iterations"
  by (simp add: run_benchmark_def split_beta Let_def outer_loop_lengths)

lemma pii_run_iteration_eq:
  "pii_run_iteration cost client p (rs, w) =
     (\<lparr>no_protection_results = no_protection_results rs @ [fst (invoke_no_protection client p w)],
       guardrail_results =
         guardrail_results rs
         @ [fst (invoke_with_guardrail client p (snd (invoke_no_protection client p w)))],
       regex_results =
         regex_results rs
         @ [fst (invoke_with_regex cost client p
                  (snd (invoke_with_guardrail client p (snd (invoke_no_protection client p w)))))]\<rparr>,
      snd (invoke_with_regex cost client p
             (snd (invoke_with_guardrail client p (snd (invoke_no_protection client p w))))))"
  by (simp add: pii_run_iteration_def split_beta Let_def)

lemma pii_run_iteration_lengths:
  "length (no_protection_results (fst (pii_run_iteration cost client p st)))
     = Suc (length (no_protection_results (fst st)))
   \<and> length (guardrail_results (fst (pii_run_iteration cost client p st)))
     = Suc (length (guardrail_results (fst st)))
   \<and> length (regex_results (fst (pii_run_iteration cost client p st)))
     = Suc (length (regex_results (fst st)))"
  by (cases st) (simp add: pii_run_iteration_eq)

lemma pii_inner_loop_lengths:
  "length (no_protection_results (fst (fold (\<lambda>i. pii_run_iteration cost client p) js st)))
     = length (no_protection_results (fst st)) + length js
   \<and> length (guardrail_results (fst (fold (\<lambda>i. pii_run_iteration cost client p) js st)))
     = length (guardrail_results (fst st)) + length js
   \<and> length (regex_results (fst (fold (\<lambda>i. pii_run_iteration cost client p) js st)))
     = length (regex_results (fst st)) + length js"
  by (induction js arbitrary: st) (simp_all add: pii_run_iteration_lengths)

lemma pii_outer_loop_lengths:
  "length (no_protection_results
       (fst (fold (\<lambda>p. fold (\<lambda>i. pii_run_iteration cost client p) js) ps st)))
     = length (no_protection_results (fst st)) + length ps * length js
   \<and> length (guardrail_results
       (fst (fold (\<lambda>p. fold (\<lambda>i. pii_run_iteration cost client p) js) ps st)))
     = length (guardrail_results (fst st)) + length ps * length js
   \<and> length (regex_results
       (fst (fold (\<lambda>p. fold (\<lambda>i. pii_run_iteration cost client p) js) ps st)))
     = length (regex_results (fst st)) + length ps * length js"
  by (induction ps arbitrary: st) (simp_all add: pii_inner_loop_lengths)

lemma pii_run_benchmark_lengths:
  "length (no_protection_results (fst (pii_run_benchmark cost client prompts iterations w)))
     = length prompts * nat iterations
   \<and> length (guardrail_results (fst (pii_run_benchmark cost client prompts iterations w)))
     = length prompts * nat iterations
   \<and> length (regex_results (fst (pii_run_benchmark cost client prompts iterations w)))
     = length prompts * nat iterations"
  by (simp add: pii_run_benchmark_def split_beta Let_def pii_outer_loop_lengths)

text \<open>
  What the analysis counts as successful: the results whose error is \<open>None\<close> or the
  empty string.
\<close>

lemma successful_count:
  "length (successful_latencies rs)
     + length (filter (\<lambda>r. error r \<noteq> None \<and> error r \<noteq> Some []) rs) = length rs"
  by (induction rs) (auto simp add: successful_latencies_def truthy_def split: option.splits)

lemma invoke_model_steady_raising:
  "fst (invoke_model (steady_client (raising d e)) p g w) =
           \<lparr>prompt = prompt_label p, with_guardrail = g, latency_ms = d * 1000,
            input_tokens = None, output_tokens = None,
            blocked = (is_validation e \<and> str_contains ''guardrail'' (lower (exn_text e))),
            error = Some (exn_text e)\<rparr>"
  using invoke_model_call_raises [of "steady_client (raising d e)" w p g e]
  by (simp add: steady_client_def raising_def)

lemma one_round: "[0..<nat 1] = [0]"
  by (simp add: upt_rec)

text \<open>
  Claim C3 fails on an exception whose text is empty: the single call without the
  guardrail raised, its result carries the error text \<open>''\<close>, and the analysis counts it
  as successful, so that one of one recorded results is successful although one call
  failed.
\<close>

theorem C3_empty_error_text:
  "map error (results_without_guardrail
      (fst (run_benchmark (steady_client (raising 1 \<lparr>is_validation = False, exn_text = []\<rparr>))
              [''p''] 1 start_world))) = [Some []]
   \<and> (case analyze_results
          (fst (run_benchmark (steady_client (raising 1 \<lparr>is_validation = False, exn_text = []\<rparr>))
              [''p''] 1 start_world))
       of Inl e \<Rightarrow> None | Inr a \<Rightarrow> Some (total_without a, successful_without a)) = Some (1, 1)"
proof -
  define R where "R = fst (run_benchmark (steady_client (raising 1 \<lparr>is_validation = False, exn_text = []\<rparr>))
              [''p''] 1 start_world)"
  have R: "R = \<lparr>results_without_guardrail =
                  [\<lparr>prompt = ''p'', with_guardrail = False, latency_ms = 1000, input_tokens = None,
                    output_tokens = None, blocked = False, error = Some []\<rparr>],
                results_with_guardrail =
                  [\<lparr>prompt = ''p'', with_guardrail = True, latency_ms = 1000, input_tokens = None,
                    output_tokens = None, blocked = False, error = Some []\<rparr>]\<rparr>"
    unfolding R_def
    by (simp add: run_benchmark_def split_beta one_round run_iteration_eq invoke_model_steady_raising
          prompt_label_def)
  have "overhead_block (successful_latencies (results_without_guardrail R))
             (successful_latencies (results_with_guardrail R))
             (length (filter blocked (results_with_guardrail R)))
             (length (results_with_guardrail R))
          = Inr (Some \<lparr>overhead_ms = 0, overhead_pct = 0, blocked_pct = 0\<rparr>)"
    by (simp add: R successful_latencies_def truthy_def overhead_block_def mean_def py_div_def
          float_sub_def float_mul_def to_double_zero bind_err_def)
  from analyze_results_Inr [OF this] obtain a where
    "analyze_results R = Inr a" "total_without a = 1" "successful_without a = 1"
    by (auto simp add: R successful_latencies_def truthy_def)
  then show ?thesis unfolding R_def [symmetric] by (simp add: R)
qed


section \<open>Properties of the JSON export\<close>

lemma invoke_model_with_guardrail: "with_guardrail (fst (invoke_model client p g w)) = g"
proof (cases "call_result (client w (model_request p g))")
  case (Inl e)
  then show ?thesis by (simp add: invoke_model_call_raises)
next
  case (Inr resp)
  then show ?thesis
    by (cases "read_result resp") (simp_all add: invoke_model_read_raises invoke_model_returns)
qed

lemma invoke_no_protection_method: "p_method (fst (invoke_no_protection client p w)) = ''no_protection''"
proof (cases "call_result (client w (pii_request p None None))")
  case (Inl e)
  then show ?thesis by (simp add: invoke_no_protection_call_raises)
next
  case (Inr resp)
  then show ?thesis
    by (cases "read_result resp")
       (simp_all add: invoke_no_protection_read_raises invoke_no_protection_returns)
qed

lemma invoke_with_guardrail_method: "p_method (fst (invoke_with_guardrail client p w)) = ''guardrail''"
proof (cases "call_result
    (client w (pii_request p (Some SIMPLE_PII_GUARDRAIL_ID) (Some SIMPLE_PII_GUARDRAIL_VERSION)))")
  case (Inl e)
  then show ?thesis by (simp add: invoke_with_guardrail_call_raises [OF refl])
next
  case (Inr resp)
  then show ?thesis
    by (cases "read_result resp")
       (simp_all add: invoke_with_guardrail_read_raises [OF refl] invoke_with_guardrail_returns [OF refl])
qed

lemma invoke_with_regex_method: "p_method (fst (invoke_with_regex cost client p w)) = ''regex''"
proof (cases "call_result (client (elapse (cost w p) w)
            (pii_request (if pii_types_found p \<noteq> [] then anonymize_pii_regex p else p) None None))")
  case (Inl e)
  then show ?thesis by (simp add: invoke_with_regex_call_raises [OF refl refl])
next
  case (Inr resp)
  then show ?thesis
    by (cases "read_result resp")
       (simp_all add: invoke_with_regex_read_raises [OF refl refl]
          invoke_with_regex_returns [OF refl refl _ _ refl])
qed

text \<open>Every result is stored under the key of its own variant.\<close>

lemma run_iteration_keys:
  assumes "\<forall>r \<in> set (results_without_guardrail (fst st)). \<not> with_guardrail r"
    and "\<forall>r \<in> set (results_with_guardrail (fst st)). with_guardrail r"
  shows "(\<forall>r \<in> set (results_without_guardrail (fst (run_iteration client p st))). \<not> with_guardrail r)
       \<and> (\<forall>r \<in> set (results_with_guardrail (fst (run_iteration client p st))). with_guardrail r)"
  using assms by (cases st) (auto simp add: run_iteration_eq invoke_model_with_guardrail)

lemma inner_loop_keys:
  assumes "\<forall>r \<in> set (results_without_guardrail (fst st)). \<not> with_guardrail r"
    and "\<forall>r \<in> set (results_with_guardrail (fst st)). with_guardrail r"
  shows "(\<forall>r \<in> set (results_without_guardrail (fst (fold (\<lambda>i. run_iteration client p) js st))).
            \<not> with_guardrail r)
       \<and> (\<forall>r \<in> set (results_with_guardrail (fst (fold (\<lambda>i. run_iteration client p) js st))).
            with_guardrail r)"
  using assms
proof (induction js arbitrary: st)
  case Nil
  then show ?case by simp
next
  case (Cons j js)
  have step: "\<forall>r \<in> set (results_without_guardrail (fst (run_iteration client p st))). \<not> with_guardrail r"
    "\<forall>r \<in> set (results_with_guardrail (fst (run_iteration client p st))). with_guardrail r"
    using run_iteration_keys [OF Cons.prems] by blast+
  show ?case using Cons.IH [OF step] by simp
qed

lemma outer_loop_keys:
  assumes "\<forall>r \<in> set (results_without_guardrail (fst st)). \<not> with_guardrail r"
    and "\<forall>r \<in> set (results_with_guardrail (fst st)). with_guardrail r"
  shows "(\<forall>r \<in> set (results_without_guardrail
              (fst (fold (\<lambda>p. fold (\<lambda>i. run_iteration client p) js) ps st))). \<not> with_guardrail r)
       \<and> (\<forall>r \<in> set (results_with_guardrail
              (fst (fold (\<lambda>p. fold (\<lambda>i. run_iteration client p) js) ps st))). with_guardrail r)"
  using assms
proof (induction ps arbitrary: st)
  case Nil
  then show ?case by simp
next
  case (Cons p ps)
  have step: "\<forall>r \<in> set (results_without_guardrail (fst (fold (\<lambda>i. run_iteration client p) js st))).
            \<not> with_guardrail r"
    "\<forall>r \<in> set (results_with_guardrail (fst (fold (\<lambda>i. run_iteration client p) js st))).
            with_guardrail r"
    using inner_loop_keys [OF Cons.prems] by blast+
  show ?case using Cons.IH [OF step] by simp
qed

lemma run_benchmark_keys:
  "(\<forall>r \<in> set (results_without_guardrail (fst (run_benchmark client prompts iterations w))).
      \<not> with_guardrail r)
   \<and> (\<forall>r \<in> set (results_with_guardrail (fst (run_benchmark client prompts iterations w))).
      with_guardrail r)"
  unfolding run_benchmark_def split_beta Let_def
  by (rule outer_loop_keys) simp_all

lemma pii_run_iteration_keys:
  assumes "\<forall>r \<in> set (no_protection_results (fst st)). p_method r = ''no_protection''"
    and "\<forall>r \<in> set (guardrail_results (fst st)). p_method r = ''guardrail''"
    and "\<forall>r \<in> set (regex_results (fst st)). p_method r = ''regex''"
  shows "(\<forall>r \<in> set (no_protection_results (fst (pii_run_iteration cost client p st))).
            p_method r = ''no_protection'')
       \<and> (\<forall>r \<in> set (guardrail_results (fst (pii_run_iteration cost client p st))).
            p_method r = ''guardrail'')
       \<and> (\<forall>r \<in> set (regex_results (fst (pii_run_iteration cost client p st))).
            p_method r = ''regex'')"
  using assms
  by (cases st)
     (auto simp add: pii_run_iteration_eq invoke_no_protection_method invoke_with_guardrail_method
        invoke_with_regex_method)

lemma pii_inner_loop_keys:
  assumes "\<forall>r \<in> set (no_protection_results (fst st)). p_method r = ''no_protection''"
    and "\<forall>r \<in> set (guardrail_results (fst st)). p_method r = ''guardrail''"
    and "\<forall>r \<in> set (regex_results (fst st)). p_method r = ''regex''"
  shows "(\<forall>r \<in> set (no_protection_results (fst (fold (\<lambda>i. pii_run_iteration cost client p) js st))).
            p_method r = ''no_protection'')
       \<and> (\<forall>r \<in> set (guardrail_results (fst (fold (\<lambda>i. pii_run_iteration cost client p) js st))).
            p_method r = ''guardrail'')
       \<and> (\<forall>r \<in> set (regex_results (fst (fold (\<lambda>i. pii_run_iteration cost client p) js st))).
            p_method r = ''regex'')"
  using assms
proof (induction js arbitrary: st)
  case Nil
  then show ?case by simp
next
  case (Cons j js)
  have step: "\<forall>r \<in> set (no_protection_results (fst (pii_run_iteration cost client p st))).
            p_method r = ''no_protection''"
    "\<forall>r \<in> set (guardrail_results (fst (pii_run_iteration cost client p st))).
            p_method r = ''guardrail''"
    "\<forall>r \<in> set (regex_results (fst (pii_run_iteration cost client p st))).
            p_method r = ''regex''"
    using pii_run_iteration_keys [OF Cons.prems] by blast+
  show ?case using Cons.IH [OF step] by simp
qed

lemma pii_outer_loop_keys:
  assumes "\<forall>r \<in> set (no_protection_results (fst st)). p_method r = ''no_protection''"
    and "\<forall>r \<in> set (guardrail_results (fst st)). p_method r = ''guardrail''"
    and "\<forall>r \<in> set (regex_results (fst st)). p_method r = ''regex''"
  shows "(\<forall>r \<in> set (no_protection_results
              (fst (fold (\<lambda>p. fold (\<lambda>i. pii_run_iteration cost client p) js) ps st))).
            p_method r = ''no_protection'')
       \<and> (\<forall>r \<in> set (guardrail_results
              (fst (fold (\<lambda>p. fold (\<lambda>i. pii_run_iteration cost client p) js) ps st))).
            p_method r = ''guardrail'')
       \<and> (\<forall>r \<in> set (regex_results
              (fst (fold (\<lambda>p. fold (\<lambda>i. pii_run_iteration cost client p) js) ps st))).
            p_method r = ''regex'')"
  using assms
proof (induction ps arbitrary: st)
  case Nil
  then show ?case by simp
next
  case (Cons p ps)
  have step: "\<forall>r \<in> set (no_protection_results (fst (fold (\<lambda>i. pii_run_iteration cost client p) js st))).
            p_method r = ''no_protection''"
    "\<forall>r \<in> set (guardrail_results (fst (fold (\<lambda>i. pii_run_iteration cost client p) js st))).
            p_method r = ''guardrail''"
    "\<forall>r \<in> set (regex_results (fst (fold (\<lambda>i. pii_run_iteration cost client p) js st))).
            p_method r = ''regex''"
    using pii_inner_loop_keys [OF Cons.prems] by blast+
  show ?case using Cons.IH [OF step] by simp
qed

lemma pii_run_benchmark_keys:
  "(\<forall>r \<in> set (no_protection_results (fst (pii_run_benchmark cost client prompts iterations w))).
      p_method r = ''no_protection'')
   \<and> (\<forall>r \<in> set (guardrail_results (fst (pii_run_benchmark cost client prompts iterations w))).
      p_method r = ''guardrail'')
   \<and> (\<forall>r \<in> set (regex_results (fst (pii_run_benchmark cost client prompts iterations w))).
      p_method r = ''regex'')"
  unfolding pii_run_benchmark_def split_beta Let_def
  by (rule pii_outer_loop_keys) simp_all


lemma json_opt_int_inject: "json_opt_int a = json_opt_int b \<Longrightarrow> a = b"
  by (cases a; cases b) (simp_all add: json_opt_int_def)

lemma json_opt_str_inject: "json_opt_str a = json_opt_str b \<Longrightarrow> a = b"
  by (cases a; cases b) (simp_all add: json_opt_str_def)

lemma map_JStr_inject: "map JStr xs = map JStr ys \<Longrightarrow> xs = ys"
  by (induction xs arbitrary: ys) auto

lemma export_with_inject:
  assumes "export_with r = export_with r'" "with_guardrail r = with_guardrail r'"
  shows "r = r'"
  using assms
  by (cases r; cases r')
     (auto simp add: export_with_def dest: json_opt_int_inject json_opt_str_inject)

lemma export_without_inject:
  assumes "export_without r = export_without r'" "with_guardrail r = with_guardrail r'"
  shows "r\<lparr>blocked := False\<rparr> = r'\<lparr>blocked := False\<rparr>"
  using assms
  by (cases r; cases r')
     (auto simp add: export_without_def dest: json_opt_int_inject json_opt_str_inject)

lemma pii_export_entry_inject:
  assumes "pii_export_entry r = pii_export_entry r'" "p_method r = p_method r'"
  shows "r = r'"
  using assms
  by (cases r; cases r')
     (auto simp add: pii_export_entry_def dest: json_opt_str_inject map_JStr_inject)

lemma map_eq_transfer:
  assumes "map f xs = map f ys"
    and "\<And>x y. x \<in> set xs \<Longrightarrow> y \<in> set ys \<Longrightarrow> f x = f y \<Longrightarrow> g x = g y"
  shows "map g xs = map g ys"
  using assms
proof (induction xs arbitrary: ys)
  case Nil
  then show ?case by simp
next
  case (Cons x xs)
  then obtain y ys' where ys: "ys = y # ys'" by (cases ys) auto
  with Cons.prems(1) have "f x = f y" "map f xs = map f ys'" by simp_all
  moreover have "g x = g y" using Cons.prems(2) [of x y] ys \<open>f x = f y\<close> by simp
  moreover have "map g xs = map g ys'"
    using Cons.IH [OF \<open>map f xs = map f ys'\<close>] Cons.prems(2) ys by simp
  ultimately show ?case using ys by simp
qed


lemma export_results_json_eq:
  "export_results_json R = export_results_json R' \<longleftrightarrow>
     map export_without (results_without_guardrail R) = map export_without (results_without_guardrail R')
     \<and> map export_with (results_with_guardrail R) = map export_with (results_with_guardrail R')"
  by (simp add: export_results_json_def)

lemma pii_export_results_eq:
  "pii_export_results R = pii_export_results R' \<longleftrightarrow>
     map pii_export_entry (no_protection_results R) = map pii_export_entry (no_protection_results R')
     \<and> map pii_export_entry (guardrail_results R) = map pii_export_entry (guardrail_results R')
     \<and> map pii_export_entry (regex_results R) = map pii_export_entry (regex_results R')"
  by (simp add: pii_export_results_def pii_items_def)

text \<open>
  Two runs of \<open>benchmark.py\<close> on one prompt and one iteration in which every call fails
  with the text \<open>guardrail policy\<close>: in the first run the calls without the guardrail
  raise a \<open>ValidationException\<close>, in the second no call does.
\<close>

lemma sample_lower: "str_contains ''guardrail'' (lower ''guardrail policy'')"
  by code_simp

lemma sample_run_validation:
  "fst (run_benchmark
          (\<lambda>w q. raising 1 \<lparr>is_validation = (guardrailIdentifier q = None), exn_text = ''guardrail policy''\<rparr>)
          [''Hi''] 1 start_world)
     = \<lparr>results_without_guardrail =
          [\<lparr>prompt = ''Hi'', with_guardrail = False, latency_ms = 1000, input_tokens = None,
            output_tokens = None, blocked = True, error = Some ''guardrail policy''\<rparr>],
        results_with_guardrail =
          [\<lparr>prompt = ''Hi'', with_guardrail = True, latency_ms = 1000, input_tokens = None,
            output_tokens = None, blocked = False, error = Some ''guardrail policy''\<rparr>]\<rparr>"
proof -
  have r: "fst (invoke_model
          (\<lambda>w q. raising 1 \<lparr>is_validation = (guardrailIdentifier q = None), exn_text = ''guardrail policy''\<rparr>)
          p g w)
        = \<lparr>prompt = prompt_label p, with_guardrail = g, latency_ms = 1000, input_tokens = None,
            output_tokens = None, blocked = (\<not> g), error = Some ''guardrail policy''\<rparr>" for p g w
    using invoke_model_call_raises [of
        "\<lambda>w q. raising 1 \<lparr>is_validation = (guardrailIdentifier q = None), exn_text = ''guardrail policy''\<rparr>"
        w p g "\<lparr>is_validation = \<not> g, exn_text = ''guardrail policy''\<rparr>"]
    by (simp add: raising_def model_request_def sample_lower)
  show ?thesis
    by (simp add: run_benchmark_def split_beta one_round run_iteration_eq r prompt_label_def)
qed

lemma sample_run_other:
  "fst (run_benchmark
          (steady_client (raising 1 \<lparr>is_validation = False, exn_text = ''guardrail policy''\<rparr>))
          [''Hi''] 1 start_world)
     = \<lparr>results_without_guardrail =
          [\<lparr>prompt = ''Hi'', with_guardrail = False, latency_ms = 1000, input_tokens = None,
            output_tokens = None, blocked = False, error = Some ''guardrail policy''\<rparr>],
        results_with_guardrail =
          [\<lparr>prompt = ''Hi'', with_guardrail = True, latency_ms = 1000, input_tokens = None,
            output_tokens = None, blocked = False, error = Some ''guardrail policy''\<rparr>]\<rparr>"
  by (simp add: run_benchmark_def split_beta one_round run_iteration_eq invoke_model_steady_raising
        prompt_label_def)

text \<open>
  Claim C4, as stated, fails for the results without the guardrail of \<open>benchmark.py\<close>:
  the two runs have the same export, and their recorded results differ in \<open>blocked\<close>.
\<close>

theorem C4_counterexample:
  "export_results_json (fst (run_benchmark
          (\<lambda>w q. raising 1 \<lparr>is_validation = (guardrailIdentifier q = None), exn_text = ''guardrail policy''\<rparr>)
          [''Hi''] 1 start_world))
     = export_results_json (fst (run_benchmark
          (steady_client (raising 1 \<lparr>is_validation = False, exn_text = ''guardrail policy''\<rparr>))
          [''Hi''] 1 start_world))
   \<and> map blocked (results_without_guardrail (fst (run_benchmark
          (\<lambda>w q. raising 1 \<lparr>is_validation = (guardrailIdentifier q = None), exn_text = ''guardrail policy''\<rparr>)
          [''Hi''] 1 start_world))) = [True]
   \<and> map blocked (results_without_guardrail (fst (run_benchmark
          (steady_client (raising 1 \<lparr>is_validation = False, exn_text = ''guardrail policy''\<rparr>))
          [''Hi''] 1 start_world))) = [False]"
  by (simp add: sample_run_validation sample_run_other export_results_json_eq export_without_def
        export_with_def)

text \<open>
  Claim C4, amended. The JSON export determines, for every variant, every field of every
  result recorded by a run (the variant of a result being the key under which it is
  exported), except the \<open>blocked\<close> field of the results without the guardrail of
  \<open>benchmark.py\<close>, which is not exported.
\<close>

theorem C4_export_determines_results:
  "(pii_export_results (fst (pii_run_benchmark cost client prompts n w))
      = pii_export_results (fst (pii_run_benchmark cost' client' prompts' n' w')) \<longrightarrow>
    fst (pii_run_benchmark cost client prompts n w) = fst (pii_run_benchmark cost' client' prompts' n' w'))
   \<and> (export_results_json (fst (run_benchmark client prompts n w))
      = export_results_json (fst (run_benchmark client' prompts' n' w')) \<longrightarrow>
    results_with_guardrail (fst (run_benchmark client prompts n w))
      = results_with_guardrail (fst (run_benchmark client' prompts' n' w'))
    \<and> map (\<lambda>r. r\<lparr>blocked := False\<rparr>) (results_without_guardrail (fst (run_benchmark client prompts n w)))
      = map (\<lambda>r. r\<lparr>blocked := False\<rparr>) (results_without_guardrail (fst (run_benchmark client' prompts' n' w'))))"
proof (intro conjI impI)
  define P where "P = fst (pii_run_benchmark cost client prompts n w)"
  define P' where "P' = fst (pii_run_benchmark cost' client' prompts' n' w')"
  assume "pii_export_results (fst (pii_run_benchmark cost client prompts n w))
      = pii_export_results (fst (pii_run_benchmark cost' client' prompts' n' w'))"
  then have e: "map pii_export_entry (no_protection_results P) = map pii_export_entry (no_protection_results P')"
     "map pii_export_entry (guardrail_results P) = map pii_export_entry (guardrail_results P')"
     "map pii_export_entry (regex_results P) = map pii_export_entry (regex_results P')"
    by (simp_all add: pii_export_results_eq P_def P'_def)
  have k: "\<forall>r \<in> set (no_protection_results P). p_method r = ''no_protection''"
      "\<forall>r \<in> set (guardrail_results P). p_method r = ''guardrail''"
      "\<forall>r \<in> set (regex_results P). p_method r = ''regex''"
    unfolding P_def using pii_run_benchmark_keys [of cost client prompts n w] by blast+
  have k': "\<forall>r \<in> set (no_protection_results P'). p_method r = ''no_protection''"
      "\<forall>r \<in> set (guardrail_results P'). p_method r = ''guardrail''"
      "\<forall>r \<in> set (regex_results P'). p_method r = ''regex''"
    unfolding P'_def using pii_run_benchmark_keys [of cost' client' prompts' n' w'] by blast+
  have "map id (no_protection_results P) = map id (no_protection_results P')"
  proof (rule map_eq_transfer [OF e(1)])
    fix x y
    assume "x \<in> set (no_protection_results P)" "y \<in> set (no_protection_results P')"
      and eq: "pii_export_entry x = pii_export_entry y"
    with k(1) k'(1) have "p_method x = p_method y" by simp
    with eq have "x = y" by (rule pii_export_entry_inject)
    then show "id x = id y" by simp
  qed
  moreover have "map id (guardrail_results P) = map id (guardrail_results P')"
  proof (rule map_eq_transfer [OF e(2)])
    fix x y
    assume "x \<in> set (guardrail_results P)" "y \<in> set (guardrail_results P')"
      and eq: "pii_export_entry x = pii_export_entry y"
    with k(2) k'(2) have "p_method x = p_method y" by simp
    with eq have "x = y" by (rule pii_export_entry_inject)
    then show "id x = id y" by simp
  qed
  moreover have "map id (regex_results P) = map id (regex_results P')"
  proof (rule map_eq_transfer [OF e(3)])
    fix x y
    assume "x \<in> set (regex_results P)" "y \<in> set (regex_results P')"
      and eq: "pii_export_entry x = pii_export_entry y"
    with k(3) k'(3) have "p_method x = p_method y" by simp
    with eq have "x = y" by (rule pii_export_entry_inject)
    then show "id x = id y" by simp
  qed
  ultimately have "P = P'" by (cases P; cases P') simp
  then show "fst (pii_run_benchmark cost client prompts n w) = fst (pii_run_benchmark cost' client' prompts' n' w')"
    by (simp add: P_def P'_def)
next
  define B where "B = fst (run_benchmark client prompts n w)"
  define B' where "B' = fst (run_benchmark client' prompts' n' w')"
  assume "export_results_json (fst (run_benchmark client prompts n w))
      = export_results_json (fst (run_benchmark client' prompts' n' w'))"
  then have e: "map export_without (results_without_guardrail B) = map export_without (results_without_guardrail B')"
     "map export_with (results_with_guardrail B) = map export_with (results_with_guardrail B')"
    by (simp_all add: export_results_json_eq B_def B'_def)
  have k: "\<forall>r \<in> set (results_without_guardrail B). \<not> with_guardrail r"
      "\<forall>r \<in> set (results_with_guardrail B). with_guardrail r"
    unfolding B_def using run_benchmark_keys [of client prompts n w] by blast+
  have k': "\<forall>r \<in> set (results_without_guardrail B'). \<not> with_guardrail r"
      "\<forall>r \<in> set (results_with_guardrail B'). with_guardrail r"
    unfolding B'_def using run_benchmark_keys [of client' prompts' n' w'] by blast+
  have "map id (results_with_guardrail B) = map id (results_with_guardrail B')"
  proof (rule map_eq_transfer [OF e(2)])
    fix x y
    assume "x \<in> set (results_with_guardrail B)" "y \<in> set (results_with_guardrail B')"
      and eq: "export_with x = export_with y"
    with k(2) k'(2) have "with_guardrail x = with_guardrail y" by simp
    with eq have "x = y" by (rule export_with_inject)
    then show "id x = id y" by simp
  qed
  then have a: "results_with_guardrail B = results_with_guardrail B'" by simp
  have b: "map (\<lambda>r. r\<lparr>blocked := False\<rparr>) (results_without_guardrail B)
      = map (\<lambda>r. r\<lparr>blocked := False\<rparr>) (results_without_guardrail B')"
  proof (rule map_eq_transfer [OF e(1)])
    fix x y
    assume "x \<in> set (results_without_guardrail B)" "y \<in> set (results_without_guardrail B')"
      and eq: "export_without x = export_without y"
    with k(1) k'(1) have "with_guardrail x = with_guardrail y" by simp
    with eq show "x\<lparr>blocked := False\<rparr> = y\<lparr>blocked := False\<rparr>"
      by (rule export_without_inject)
  qed
  from a b show "results_with_guardrail (fst (run_benchmark client prompts n w))
      = results_with_guardrail (fst (run_benchmark client' prompts' n' w'))"
    and "map (\<lambda>r. r\<lparr>blocked := False\<rparr>) (results_without_guardrail (fst (run_benchmark client prompts n w)))
      = map (\<lambda>r. r\<lparr>blocked := False\<rparr>) (results_without_guardrail (fst (run_benchmark client' prompts' n' w')))"
    by (simp_all add: B_def B'_def)
qed


text \<open>
  A run of the PII comparison in which every call fails: its results do not depend on
  the clock reading at the start.
\<close>

lemma sample_pii_run:
  "fst (pii_run_benchmark (steady_cost 0)
          (steady_client (raising 1 \<lparr>is_validation = False, exn_text = ''down''\<rparr>)) [''Hi''] 1 w)
     = \<lparr>no_protection_results =
          [\<lparr>p_prompt = ''Hi'', p_method = ''no_protection'', p_latency_ms = 1000, pii_check_ms = 0,
            total_ms = 1000, pii_found = [], p_blocked = False, p_error = Some ''down''\<rparr>],
        guardrail_results =
          [\<lparr>p_prompt = ''Hi'', p_method = ''guardrail'', p_latency_ms = 1000, pii_check_ms = 0,
            total_ms = 1000, pii_found = [], p_blocked = False, p_error = Some ''down''\<rparr>],
        regex_results =
          [\<lparr>p_prompt = ''Hi'', p_method = ''regex'', p_latency_ms = 1000, pii_check_ms = 0,
            total_ms = 1000, pii_found = pii_types_found ''Hi'', p_blocked = False,
            p_error = Some ''down''\<rparr>]\<rparr>"
proof -
  have l: "\<not> str_contains ''guardrail'' (lower ''down'')" by code_simp
  have a: "fst (invoke_no_protection
              (steady_client (raising 1 \<lparr>is_validation = False, exn_text = ''down''\<rparr>)) p w)
        = \<lparr>p_prompt = prompt_label p, p_method = ''no_protection'', p_latency_ms = 1000,
           pii_check_ms = 0, total_ms = 1000, pii_found = [], p_blocked = False,
           p_error = Some ''down''\<rparr>" for p w
    using invoke_no_protection_call_raises [of
        "steady_client (raising 1 \<lparr>is_validation = False, exn_text = ''down''\<rparr>)" w p
        "\<lparr>is_validation = False, exn_text = ''down''\<rparr>"]
    by (simp add: steady_client_def raising_def)
  have b: "fst (invoke_with_guardrail
              (steady_client (raising 1 \<lparr>is_validation = False, exn_text = ''down''\<rparr>)) p w)
        = \<lparr>p_prompt = prompt_label p, p_method = ''guardrail'', p_latency_ms = 1000,
           pii_check_ms = 0, total_ms = 1000, pii_found = [], p_blocked = False,
           p_error = Some ''down''\<rparr>" for p w
    using invoke_with_guardrail_call_raises [OF refl, of
        "steady_client (raising 1 \<lparr>is_validation = False, exn_text = ''down''\<rparr>)" w p
        "\<lparr>is_validation = False, exn_text = ''down''\<rparr>"]
    by (simp add: steady_client_def raising_def l)
  have c: "fst (invoke_with_regex (steady_cost 0)
              (steady_client (raising 1 \<lparr>is_validation = False, exn_text = ''down''\<rparr>)) p w)
        = \<lparr>p_prompt = prompt_label p, p_method = ''regex'', p_latency_ms = 1000,
           pii_check_ms = 0, total_ms = 1000, pii_found = pii_types_found p, p_blocked = False,
           p_error = Some ''down''\<rparr>" for p w
    using invoke_with_regex_call_raises [OF refl refl, of
        "steady_client (raising 1 \<lparr>is_validation = False, exn_text = ''down''\<rparr>)"
        "steady_cost 0" w p "\<lparr>is_validation = False, exn_text = ''down''\<rparr>"]
    by (simp add: steady_client_def raising_def steady_cost_def)
  show ?thesis
    by (simp add: pii_run_benchmark_def split_beta one_round pii_run_iteration_eq a b c prompt_label_def)
qed

text \<open>
  An instance: the two runs of \<open>benchmark.py\<close> above, whose exports agree, and two runs of
  the PII comparison that start at different clock readings.
\<close>

theorem C4_export_determines_results_witness:
  "fst (pii_run_benchmark (steady_cost 0)
          (steady_client (raising 1 \<lparr>is_validation = False, exn_text = ''down''\<rparr>)) [''Hi''] 1 start_world)
     = fst (pii_run_benchmark (steady_cost 0)
          (steady_client (raising 1 \<lparr>is_validation = False, exn_text = ''down''\<rparr>)) [''Hi''] 1
          (start_world\<lparr>clock := 5\<rparr>))
   \<and> results_with_guardrail (fst (run_benchmark
          (\<lambda>w q. raising 1 \<lparr>is_validation = (guardrailIdentifier q = None), exn_text = ''guardrail policy''\<rparr>)
          [''Hi''] 1 start_world))
     = results_with_guardrail (fst (run_benchmark
          (steady_client (raising 1 \<lparr>is_validation = False, exn_text = ''guardrail policy''\<rparr>))
          [''Hi''] 1 start_world))
   \<and> map (\<lambda>r. r\<lparr>blocked := False\<rparr>) (results_without_guardrail (fst (run_benchmark
          (\<lambda>w q. raising 1 \<lparr>is_validation = (guardrailIdentifier q = None), exn_text = ''guardrail policy''\<rparr>)
          [''Hi''] 1 start_world)))
     = map (\<lambda>r. r\<lparr>blocked := False\<rparr>) (results_without_guardrail (fst (run_benchmark
          (steady_client (raising 1 \<lparr>is_validation = False, exn_text = ''guardrail policy''\<rparr>))
          [''Hi''] 1 start_world)))"
proof -
  have p: "pii_export_results (fst (pii_run_benchmark (steady_cost 0)
          (steady_client (raising 1 \<lparr>is_validation = False, exn_text = ''down''\<rparr>)) [''Hi''] 1 start_world))
     = pii_export_results (fst (pii_run_benchmark (steady_cost 0)
          (steady_client (raising 1 \<lparr>is_validation = False, exn_text = ''down''\<rparr>)) [''Hi''] 1
          (start_world\<lparr>clock := 5\<rparr>)))"
    by (simp only: sample_pii_run)
  have b: "export_results_json (fst (run_benchmark
          (\<lambda>w q. raising 1 \<lparr>is_validation = (guardrailIdentifier q = None), exn_text = ''guardrail policy''\<rparr>)
          [''Hi''] 1 start_world))
     = export_results_json (fst (run_benchmark
          (steady_client (raising 1 \<lparr>is_validation = False, exn_text = ''guardrail policy''\<rparr>))
          [''Hi''] 1 start_world))"
    by (simp add: sample_run_validation sample_run_other export_results_json_eq export_without_def
          export_with_def)
  note pii_part = C4_export_determines_results [of "steady_cost 0"
      "steady_client (raising 1 \<lparr>is_validation = False, exn_text = ''down''\<rparr>)" "[''Hi'']" 1 start_world
      "steady_cost 0"
      "steady_client (raising 1 \<lparr>is_validation = False, exn_text = ''down''\<rparr>)" "[''Hi'']" 1
      "start_world\<lparr>clock := 5\<rparr>"]
  note bench_part = C4_export_determines_results [of cost
      "\<lambda>w q. raising 1 \<lparr>is_validation = (guardrailIdentifier q = None), exn_text = ''guardrail policy''\<rparr>"
      "[''Hi'']" 1 start_world cost
      "steady_client (raising 1 \<lparr>is_validation = False, exn_text = ''guardrail policy''\<rparr>)"
      "[''Hi'']" 1 start_world for cost]
  from pii_part p bench_part b
  show ?thesis by blast
qed

end
